theory Spec2Isabelle
  imports Main "HOL-Library.Word" "HOL-Library.Sublist"
begin

section \<open>Data model of the image repository controller\<close>

subsection \<open>Errors\<close>

text \<open>
  Go errors are values. \<open>Error m\<close> is an error with message \<open>m\<close> (\<open>errors.New\<close>,
  \<open>fmt.Errorf\<close> without \<open>%w\<close>, or an error handed back by a collaborator),
  \<open>Wrapped p e\<close> is \<open>fmt.Errorf(p ++ "%w", e)\<close>, \<open>NotFound m\<close> is the API server's
  not-found error (the one \<open>client.IgnoreNotFound\<close> swallows) and \<open>Aggregate es\<close> is
  what \<open>kerrors.NewAggregate\<close> builds.
\<close>

datatype error =
    Error string
  | Wrapped string error
  | NotFound string
  | Aggregate "error list"

fun Error_msg :: "error \<Rightarrow> string" where
  "Error_msg (Error m) = m"
| "Error_msg (Wrapped p e) = p @ Error_msg e"
| "Error_msg (NotFound m) = m"
| "Error_msg (Aggregate es) = concat (map (\<lambda>e. Error_msg e @ ''; '') es)"

definition IgnoreNotFound :: "error \<Rightarrow> error option" where
  "IgnoreNotFound e = (case e of NotFound m \<Rightarrow> None | _ \<Rightarrow> Some e)"

definition NewAggregate :: "error option list \<Rightarrow> error option" where
  "NewAggregate errs =
     (let es = concat (map (\<lambda>e. case e of None \<Rightarrow> [] | Some x \<Rightarrow> [x]) errs)
      in if es = [] then None else Some (Aggregate es))"

subsection \<open>Time\<close>

text \<open>
  \<open>time.Duration\<close> is a signed 64-bit count of nanoseconds; its arithmetic wraps and its
  comparisons are signed. A \<open>time.Time\<close> is an instant; its range is far wider than that
  of a duration, so an instant is an unbounded count of nanoseconds. \<open>t.Sub(u)\<close> is the
  difference of two instants, saturated to the largest or smallest duration when it does
  not fit. The last scan time is read back from the stored status and has no monotonic
  clock reading, so the difference taken in \<open>shouldScan\<close> is that of the wall clocks.
\<close>

type_synonym Duration = "64 word"
type_synonym Time = int

definition Second :: Duration where
  "Second = 1000000000"

definition maxDuration :: Duration where
  "maxDuration = 9223372036854775807"

definition minDuration :: Duration where
  "minDuration = - 9223372036854775808"

definition Time_Sub :: "Time \<Rightarrow> Time \<Rightarrow> Duration" where
  "Time_Sub t u =
     (let d = t - u
      in if d < - 9223372036854775808 then minDuration
         else if 9223372036854775807 < d then maxDuration
         else word_of_int d)"

subsection \<open>The ImageRepository resource\<close>

datatype ConditionStatus = ConditionTrue | ConditionFalse | ConditionUnknown

record Condition =
  cond_Type :: string
  cond_Status :: ConditionStatus
  cond_Reason :: string
  cond_Message :: string

record ScanResult =
  TagCount :: nat
  ScanTime :: Time

record ImageRepositorySpec =
  Spec_Image :: string
  Interval :: Duration
  Timeout :: "Duration option"
  SecretRef :: "string option"
  CertSecretRef :: "string option"
  ServiceAccountName :: string
  ExclusionList :: "string list"
  Suspend :: bool

record ImageRepositoryStatus =
  CanonicalImageName :: string
  LastScanResult :: "ScanResult option"
  LastHandledReconcileRequest :: string
  Conditions :: "Condition list"
  ObservedGeneration :: int

record ImageRepository =
  Annotations :: "string \<rightharpoonup> string"
  Finalizers :: "string list"
  DeletionTimestamp :: "Time option"
  Generation :: int
  Spec :: ImageRepositorySpec
  Status :: ImageRepositoryStatus

text \<open>
  \<open>meta.ReconcileAnnotationValue\<close> (package \<open>fluxcd/pkg/apis/meta\<close>) looks the manual
  trigger up in the annotations; an empty or nil map has no entry.
\<close>

definition ReconcileRequestAnnotation :: string where
  "ReconcileRequestAnnotation = ''reconcile.fluxcd.io/requestedAt''"

definition ReconcileAnnotationValue :: "(string \<rightharpoonup> string) \<Rightarrow> string option" where
  "ReconcileAnnotationValue annotations = annotations ReconcileRequestAnnotation"

subsection \<open>The tag database\<close>

text \<open>
  Modelled from the spec: the controller reaches the tag store through the interfaces
  \<open>DatabaseReader\<close> and \<open>DatabaseWriter\<close>, whose declarations and Badger implementation
  are in \<open>internal/database\<close>, outside the sources at hand. The spec gives
  \<open>SetTags(canonicalName, tags) error\<close>, a full replacement of the entry, and
  \<open>Tags(canonicalName) ([]string, error)\<close>, where absence is an empty slice and not an
  error. A store is its content, the read and write failures it will answer with, and the
  log of the \<open>SetTags\<close> calls it has received.
\<close>

record Database =
  db_content :: "string \<rightharpoonup> string list"
  db_readError :: "string \<Rightarrow> error option"
  db_writeError :: "string \<Rightarrow> error option"
  db_setCalls :: "(string \<times> string list) list"

definition Tags :: "Database \<Rightarrow> string \<Rightarrow> error + string list" where
  "Tags db repo =
     (case db_readError db repo of
        Some e \<Rightarrow> Inl e
      | None \<Rightarrow> Inr (case db_content db repo of None \<Rightarrow> [] | Some ts \<Rightarrow> ts))"

definition SetTags :: "Database \<Rightarrow> string \<Rightarrow> string list \<Rightarrow> error option \<times> Database" where
  "SetTags db repo tags =
     (case db_writeError db repo of
        Some e \<Rightarrow> (Some e, db\<lparr>db_setCalls := db_setCalls db @ [(repo, tags)]\<rparr>)
      | None \<Rightarrow>
          (None, db\<lparr>db_content := (db_content db)(repo \<mapsto> tags),
                     db_setCalls := db_setCalls db @ [(repo, tags)]\<rparr>))"

section \<open>The scan scheduler\<close>

text \<open>
  \<open>shouldScan\<close> of the first controller variant (lines 443 to 482). The result is the
  triple the Go function returns: whether a scan is due, the wait, and the error.
\<close>

definition shouldScan ::
  "Database \<Rightarrow> ImageRepository \<Rightarrow> Time \<Rightarrow> bool \<times> Duration \<times> error option" where
  "shouldScan db repo now =
     (let scanInterval = Interval (Spec repo)
      in case LastScanResult (Status repo) of
           None \<Rightarrow> (True, scanInterval, None)
         | Some lastScanResult \<Rightarrow>
            (let lastScanTime = ScanTime lastScanResult
             in if (case ReconcileAnnotationValue (Annotations repo) of
                      Some syncAt \<Rightarrow> syncAt \<noteq> LastHandledReconcileRequest (Status repo)
                    | None \<Rightarrow> False)
                then (True, scanInterval, None)
                else (case Tags db (CanonicalImageName (Status repo)) of
                        Inl err \<Rightarrow> (False, scanInterval, Some err)
                      | Inr tags \<Rightarrow>
                          if length tags = 0 then (True, scanInterval, None)
                          else (let when = scanInterval - Time_Sub now lastScanTime
                                in if when <s Second then (True, scanInterval, None)
                                   else (False, when, None)))))"

text \<open>\<open>shouldScan\<close> of the second controller variant (lines 933 to 972).\<close>

definition shouldScan2 ::
  "Database \<Rightarrow> ImageRepository \<Rightarrow> Time \<Rightarrow> bool \<times> Duration \<times> error option" where
  "shouldScan2 db repo now =
     (let scanInterval = Interval (Spec repo)
      in case LastScanResult (Status repo) of
           None \<Rightarrow> (True, scanInterval, None)
         | Some lastScanResult \<Rightarrow>
            (let lastScanTime = ScanTime lastScanResult
             in if (case ReconcileAnnotationValue (Annotations repo) of
                      Some syncAt \<Rightarrow> syncAt \<noteq> LastHandledReconcileRequest (Status repo)
                    | None \<Rightarrow> False)
                then (True, scanInterval, None)
                else (case Tags db (CanonicalImageName (Status repo)) of
                        Inl err \<Rightarrow> (False, scanInterval, Some err)
                      | Inr tags \<Rightarrow>
                          if length tags = 0 then (True, scanInterval, None)
                          else (let when = scanInterval - Time_Sub now lastScanTime
                                in if when <s Second then (True, scanInterval, None)
                                   else (False, when, None)))))"

text \<open>
  Rule 2 of the scheduler as the spec words it: a manual-trigger token is present in the
  annotations and differs from the last handled one.
\<close>

definition manualTriggerPending :: "ImageRepository \<Rightarrow> bool" where
  "manualTriggerPending repo =
     (case ReconcileAnnotationValue (Annotations repo) of
        None \<Rightarrow> False
      | Some token \<Rightarrow> token \<noteq> LastHandledReconcileRequest (Status repo))"

section \<open>Strings\<close>

text \<open>
  \<open>strings.HasPrefix\<close>, \<open>strings.TrimPrefix\<close> and \<open>strings.Split\<close> of the Go
  library, on byte strings. \<open>genSplit sep cur s\<close> scans \<open>s\<close> from the left, \<open>cur\<close>
  holding (reversed) the piece read since the last separator; occurrences of the
  separator do not overlap. With an empty separator Go splits after each character.
\<close>

definition quote :: string where
  "quote = [CHR 0x27]"

definition quoted :: "string \<Rightarrow> string" where
  "quoted s = CHR 0x22 # s @ [CHR 0x22]"

definition HasPrefix :: "string \<Rightarrow> string \<Rightarrow> bool" where
  "HasPrefix s p = prefix p s"

definition TrimPrefix :: "string \<Rightarrow> string \<Rightarrow> string" where
  "TrimPrefix s p = (if HasPrefix s p then drop (length p) s else s)"

function genSplit :: "string \<Rightarrow> string \<Rightarrow> string \<Rightarrow> string list" where
  "genSplit sep cur [] = [rev cur]"
| "genSplit sep cur (c # cs) =
     (if sep \<noteq> [] \<and> prefix sep (c # cs)
      then rev cur # genSplit sep [] (drop (length sep - 1) cs)
      else genSplit sep (c # cur) cs)"
  by pat_completeness auto
termination
  by (relation "measure (\<lambda>(sep, cur, s). length s)") auto

definition Split :: "string \<Rightarrow> string \<Rightarrow> string list" where
  "Split s sep = (if sep = [] then map (\<lambda>c. [c]) s else genSplit sep [] s)"

function itoa :: "nat \<Rightarrow> string" where
  "itoa n =
     (if n < 10 then [char_of (48 + n)]
      else itoa (n div 10) @ [char_of (48 + n mod 10)])"
  by pat_completeness auto
termination
  by (relation "measure id") auto

section \<open>Image references and registry hosts\<close>

text \<open>
  \<open>name.ParseReference\<close> belongs to go-containerregistry; the controller reads two
  things off a parsed reference: \<open>ref.Context().RegistryStr()\<close> and
  \<open>ref.Context().String()\<close>. The parser is a parameter of the model.
\<close>

record Reference =
  RegistryStr :: string
  ContextString :: string
  Identifier :: string

text \<open>\<open>parseImageReference\<close>, lines 213 to 229.\<close>

definition parseImageReference ::
  "(string \<Rightarrow> error + Reference) \<Rightarrow> string \<Rightarrow> error + Reference" where
  "parseImageReference ParseReference url =
     (let s = Split url ''://''
      in if length s > 1
         then Inl (Error (''.spec.image value should not start with URL scheme; remove ''
                          @ quote @ s ! 0 @ ''://'' @ quote))
         else (case ParseReference url of
                 Inl err \<Rightarrow> Inl err
               | Inr ref \<Rightarrow>
                   (let imageName = TrimPrefix url (RegistryStr ref);
                        s = Split imageName '':''
                    in if length s > 1
                       then Inl (Error (''.spec.image value should not contain a tag; remove ''
                                        @ quote @ '':'' @ s ! 1 @ quote))
                       else Inr ref)))"

text \<open>
  \<open>getURLHost\<close>, lines 596 to 623 (and, word for word, lines 1025 to 1052). \<open>url.Parse\<close>
  is the Go library's; of the parsed URL only the host is read.
\<close>

record URL =
  Host :: string

definition getURLHost :: "(string \<Rightarrow> error + URL) \<Rightarrow> string \<Rightarrow> error + string" where
  "getURLHost url_Parse urlStr =
     (if urlStr = ''http://'' \<or> urlStr = ''https://'' then Inl (Error ''Empty url'')
      else (let urlStr =
                  (if \<not> HasPrefix urlStr ''http://'' \<and> \<not> HasPrefix urlStr ''https://''
                   then ''https://'' @ urlStr @ ''/''
                   else urlStr)
            in case url_Parse urlStr of
                 Inl err \<Rightarrow> Inl err
               | Inr u \<Rightarrow>
                   if Host u = []
                   then Inl (Error (''Invalid registry auth key: '' @ urlStr
                          @ ''. Expected an HTTPS URL (e.g. '' @ quote
                          @ ''https://index.docker.io/v2/'' @ quote @ '' or '' @ quote
                          @ ''https://index.docker.io'' @ quote
                          @ ''), or the same without the '' @ quote @ ''https://'' @ quote
                          @ '' (e.g., '' @ quote @ ''index.docker.io/v2/'' @ quote
                          @ '' or '' @ quote @ ''index.docker.io'' @ quote @ '')''))
                   else Inr (Host u)))"

text \<open>
  A model of the host component that \<open>url.Parse\<close> finds in \<open>scheme://host/path\<close>: the
  text between \<open>://\<close> and the next slash. It serves as the concrete parser where the
  theorems below are put to work.
\<close>

definition simple_url_Parse :: "string \<Rightarrow> error + URL" where
  "simple_url_Parse s =
     (case Split s ''://'' of
        scheme # rest # others \<Rightarrow> Inr \<lparr>Host = takeWhile (\<lambda>c. c \<noteq> CHR ''/'') rest\<rparr>
      | _ \<Rightarrow> Inr \<lparr>Host = []\<rparr>)"

section \<open>Secrets, authenticators and transports\<close>

record Secret =
  Secret_Name :: string
  Secret_Namespace :: string
  Secret_Type :: string
  Data :: "string \<rightharpoonup> string"

record ServiceAccount =
  ImagePullSecrets :: "string list"

record AuthConfig =
  Username :: string
  Password :: string
  Auth :: string

text \<open>
  \<open>dockerConfig.Auths\<close> is a Go map; \<open>parseAuthMap\<close> ranges over it, and the list gives
  its entries in the order in which that loop meets them.
\<close>

record dockerConfig =
  Auths :: "(string \<times> AuthConfig) list"

datatype Authenticator = FromConfig AuthConfig | FromProvider string

datatype Certificate = Certificate string string

text \<open>
  A certificate pool holds the roots of the system and the certificates added since.
  What \<open>AppendCertsFromPEM\<close> adds to a pool is decided by the Go library, which takes
  from the PEM data the certificates that parse; the function is a parameter wherever it
  is called.
\<close>

record CertPool =
  pool_system :: "string list"
  pool_appended :: "string list"

record Transport =
  Certificates :: "Certificate list"
  RootCAs :: "CertPool option"

datatype Keychain = Keychain "Secret list"

datatype remote_Option =
    WithAuth Authenticator
  | WithTransport Transport
  | WithAuthFromKeychain Keychain
  | WithContext

definition ClientCert :: string where
  "ClientCert = ''certFile''"

definition ClientKey :: string where
  "ClientKey = ''keyFile''"

definition CACert :: string where
  "CACert = ''caFile''"

definition CosignObjectRegex :: string where
  "CosignObjectRegex = ''^.*'' @ [CHR 0x5C] @ ''.sig$''"

text \<open>\<open>parseAuthMap\<close>, lines 582 to 594: the loop over the entries, \<open>auth\<close> the map built so far.\<close>

fun parseAuthMap_loop ::
  "(string \<Rightarrow> error + URL) \<Rightarrow> (string \<times> AuthConfig) list \<Rightarrow> (string \<rightharpoonup> AuthConfig)
     \<Rightarrow> error + (string \<rightharpoonup> AuthConfig)" where
  "parseAuthMap_loop url_Parse [] auth = Inr auth"
| "parseAuthMap_loop url_Parse ((url, entry) # rest) auth =
     (case getURLHost url_Parse url of
        Inl err \<Rightarrow> Inl err
      | Inr host \<Rightarrow> parseAuthMap_loop url_Parse rest (auth(host \<mapsto> entry)))"

definition parseAuthMap ::
  "(string \<Rightarrow> error + URL) \<Rightarrow> dockerConfig \<Rightarrow> error + (string \<rightharpoonup> AuthConfig)" where
  "parseAuthMap url_Parse config = parseAuthMap_loop url_Parse (Auths config) Map.empty"

text \<open>
  \<open>authFromSecret\<close>, lines 497 to 519. The JSON decoder is the Go library's and a
  parameter; a missing \<open>.dockerconfigjson\<close> key reads as no bytes.
\<close>

definition authFromSecret ::
  "(string \<Rightarrow> error + dockerConfig) \<Rightarrow> (string \<Rightarrow> error + URL) \<Rightarrow> Secret \<Rightarrow> Reference
     \<Rightarrow> error + Authenticator" where
  "authFromSecret json_Decode url_Parse secret ref =
     (if Secret_Type secret = ''kubernetes.io/dockerconfigjson''
      then (let configData = (case Data secret ''.dockerconfigjson'' of
                                None \<Rightarrow> [] | Some d \<Rightarrow> d)
            in case json_Decode configData of
                 Inl err \<Rightarrow> Inl err
               | Inr dockerconfig \<Rightarrow>
                   (case parseAuthMap url_Parse dockerconfig of
                      Inl err \<Rightarrow> Inl err
                    | Inr authMap \<Rightarrow>
                        (let registry = RegistryStr ref
                         in case authMap registry of
                              None \<Rightarrow>
                                Inl (Error (''auth for '' @ quoted registry
                                     @ '' not found in secret '' @ Secret_Namespace secret
                                     @ ''/'' @ Secret_Name secret))
                            | Some auth \<Rightarrow> Inr (FromConfig auth))))
      else Inl (Error (''unknown secret type '' @ quoted (Secret_Type secret))))"

text \<open>
  \<open>transportFromSecret\<close>, lines 407 to 438 (and, word for word, lines 897 to 928).
  \<open>tls.X509KeyPair\<close>, \<open>x509.SystemCertPool\<close> and the pool's \<open>AppendCertsFromPEM\<close> are
  the Go library's and parameters. \<open>AppendCertsFromPEM\<close> also reports whether it found
  a certificate; the code does not read that report, and the parameter gives the pool
  only.
\<close>

definition transportFromSecret ::
  "(string \<Rightarrow> string \<Rightarrow> error + Certificate) \<Rightarrow> (error + CertPool)
     \<Rightarrow> (CertPool \<Rightarrow> string \<Rightarrow> CertPool) \<Rightarrow> Secret \<Rightarrow> error + Transport" where
  "transportFromSecret X509KeyPair SystemCertPool AppendCertsFromPEM certSecret =
     (let tlsConfig = \<lparr>Certificates = [], RootCAs = None\<rparr>
      in case (case Data certSecret ClientCert of
                 Some clientCert \<Rightarrow>
                   (case Data certSecret ClientKey of
                      Some clientKey \<Rightarrow>
                        (case X509KeyPair clientCert clientKey of
                           Inl err \<Rightarrow> Inl err
                         | Inr cert \<Rightarrow>
                             Inr (tlsConfig\<lparr>Certificates := Certificates tlsConfig @ [cert]\<rparr>))
                    | None \<Rightarrow> Inl (Error ''client certificate found, but no key''))
               | None \<Rightarrow> Inr tlsConfig) of
           Inl err \<Rightarrow> Inl err
         | Inr tlsConfig \<Rightarrow>
             (case Data certSecret CACert of
                Some caCert \<Rightarrow>
                  (case SystemCertPool of
                     Inl err \<Rightarrow> Inl err
                   | Inr syscerts \<Rightarrow>
                       Inr (tlsConfig\<lparr>RootCAs := Some (AppendCertsFromPEM syscerts caCert)\<rparr>))
              | None \<Rightarrow> Inr tlsConfig))"

section \<open>Collaborators\<close>

text \<open>
  Everything the controller asks of the world outside it, as the answers it gets during
  one reconciliation pass: the libraries (reference and URL parsing, JSON decoding, TLS
  material, regular expressions, the clock), the registry (\<open>remote.List\<close>), the
  credential provider (\<open>login.NewManager().Login\<close>), and the API server (secrets and
  service accounts by name; \<open>api_error n\<close> is the failure, if any, of the \<open>n\<close>-th request
  that reads or writes the ImageRepository itself). A compiled regular expression is
  its \<open>MatchString\<close> predicate. Contexts and their deadlines are left out.
\<close>

record World =
  name_ParseReference :: "string \<Rightarrow> error + Reference"
  url_Parse :: "string \<Rightarrow> error + URL"
  json_Decode :: "string \<Rightarrow> error + dockerConfig"
  tls_X509KeyPair :: "string \<Rightarrow> string \<Rightarrow> error + Certificate"
  x509_SystemCertPool :: "error + CertPool"
  x509_AppendCertsFromPEM :: "CertPool \<Rightarrow> string \<Rightarrow> CertPool"
  regexp_Compile :: "string \<Rightarrow> error + (string \<Rightarrow> bool)"
  metav1_Now :: Time
  login_Login :: "string \<Rightarrow> Reference \<Rightarrow> error + Authenticator option"
  k8schain_NewFromPullSecrets :: "Secret list \<Rightarrow> error + Keychain"
  remote_List :: "string \<Rightarrow> remote_Option list \<Rightarrow> error + string list"
  Get_Secret :: "string \<Rightarrow> error + Secret"
  Get_ServiceAccount :: "string \<Rightarrow> error + ServiceAccount"
  api_error :: "nat \<Rightarrow> error option"
  MetricsRecorder_set :: bool
  reference_GetReference :: "error option"
  patch_NewHelper :: "error option"

section \<open>Readiness\<close>

text \<open>
  Modelled from the spec: \<open>imagev1.SetImageRepositoryReadiness\<close>, the condition reasons
  and the finalizer name are declared in \<open>api/v1beta1\<close>, outside the sources at hand.
  The spec has \<open>conditions\<close> hold the readiness state with its reason and message, a
  boolean-with-reason-and-message summary of the last reconciliation; setting the
  readiness puts that summary in place of the previous condition of type \<open>Ready\<close>.
  \<open>conditions.MarkFalse\<close> and \<open>conditions.MarkTrue\<close> of the second variant do the same
  for the condition type they are given, and \<open>apimeta.FindStatusCondition\<close> looks a
  condition up by its type. The condition type and the reasons are fixed strings; they
  are given the values they have in the Flux libraries, and nothing below rests on what
  those values are.
\<close>

definition ReadyCondition :: string where
  "ReadyCondition = ''Ready''"

definition SuspendedReason :: string where
  "SuspendedReason = ''Suspended''"

definition ImageURLInvalidReason :: string where
  "ImageURLInvalidReason = ''ImageURLInvalid''"

definition ReconciliationFailedReason :: string where
  "ReconciliationFailedReason = ''ReconciliationFailed''"

definition ReconciliationSucceededReason :: string where
  "ReconciliationSucceededReason = ''ReconciliationSucceeded''"

definition FailedReason :: string where
  "FailedReason = ''Failed''"

definition SucceededReason :: string where
  "SucceededReason = ''Succeeded''"

definition ImageRepositoryFinalizer :: string where
  "ImageRepositoryFinalizer = ''finalizers.fluxcd.io''"

fun SetStatusCondition :: "Condition list \<Rightarrow> Condition \<Rightarrow> Condition list" where
  "SetStatusCondition [] newCondition = [newCondition]"
| "SetStatusCondition (c # cs) newCondition =
     (if cond_Type c = cond_Type newCondition then newCondition # cs
      else c # SetStatusCondition cs newCondition)"

definition FindStatusCondition :: "Condition list \<Rightarrow> string \<Rightarrow> Condition option" where
  "FindStatusCondition conditions conditionType =
     find (\<lambda>c. cond_Type c = conditionType) conditions"

definition MarkCondition ::
  "ImageRepository \<Rightarrow> string \<Rightarrow> ConditionStatus \<Rightarrow> string \<Rightarrow> string \<Rightarrow> ImageRepository" where
  "MarkCondition ir t status reason message =
     ir\<lparr>Status := (Status ir)\<lparr>Conditions :=
          SetStatusCondition (Conditions (Status ir))
            \<lparr>cond_Type = t, cond_Status = status,
             cond_Reason = reason, cond_Message = message\<rparr>\<rparr>\<rparr>"

definition SetImageRepositoryReadiness ::
  "ImageRepository \<Rightarrow> ConditionStatus \<Rightarrow> string \<Rightarrow> string \<Rightarrow> ImageRepository" where
  "SetImageRepositoryReadiness ir status reason message =
     MarkCondition ir ReadyCondition status reason message"

definition MarkFalse :: "ImageRepository \<Rightarrow> string \<Rightarrow> string \<Rightarrow> string \<Rightarrow> ImageRepository" where
  "MarkFalse ir t reason message = MarkCondition ir t ConditionFalse reason message"

definition MarkTrue :: "ImageRepository \<Rightarrow> string \<Rightarrow> string \<Rightarrow> string \<Rightarrow> ImageRepository" where
  "MarkTrue ir t reason message = MarkCondition ir t ConditionTrue reason message"

text \<open>
  The spec's word for the state a failed scan leaves: not ready, with the error text.
\<close>

definition notReadyWith :: "ImageRepository \<Rightarrow> string \<Rightarrow> bool" where
  "notReadyWith ir message =
     (case FindStatusCondition (Conditions (Status ir)) ReadyCondition of
        None \<Rightarrow> False
      | Some c \<Rightarrow> cond_Status c = ConditionFalse \<and> cond_Message c = message)"

section \<open>The registry scan, first variant\<close>

text \<open>
  \<open>scan\<close>, lines 231 to 405, takes a pointer to the resource and changes it in place; the
  model hands the resource back. The function is read in the order of its text: the
  authentication strategy (lines 236 to 270), the certificate (lines 272 to 297), the
  service account (lines 299 to 345), then the listing, the exclusion filter and the
  store. A part that ends the scan early gives \<open>Inl\<close> of the error returned and the
  resource as it then stands.
\<close>

definition zeroSecret :: Secret where
  "zeroSecret = \<lparr>Secret_Name = [], Secret_Namespace = [], Secret_Type = [],
                  Data = Map.empty\<rparr>"

definition scan_auth ::
  "World \<Rightarrow> ImageRepository \<Rightarrow> Reference
     \<Rightarrow> error \<times> ImageRepository + Secret \<times> remote_Option list" where
  "scan_auth w imageRepo ref =
     (case (case SecretRef (Spec imageRepo) of
              Some secretName \<Rightarrow>
                (case Get_Secret w secretName of
                   Inl err \<Rightarrow>
                     Inl (err, SetImageRepositoryReadiness imageRepo ConditionFalse
                                 ReconciliationFailedReason (Error_msg err))
                 | Inr authSecret \<Rightarrow>
                     Inr (authSecret,
                          case authFromSecret (json_Decode w) (url_Parse w) authSecret ref of
                            Inl authErr \<Rightarrow> Inl authErr
                          | Inr auth \<Rightarrow> Inr (Some auth)))
            | None \<Rightarrow> Inr (zeroSecret, login_Login w (Spec_Image (Spec imageRepo)) ref)) of
        Inl early \<Rightarrow> Inl early
      | Inr (authSecret, Inl authErr) \<Rightarrow>
          Inl (authErr, SetImageRepositoryReadiness imageRepo ConditionFalse
                          ReconciliationFailedReason (Error_msg authErr))
      | Inr (authSecret, Inr auth) \<Rightarrow>
          Inr (authSecret, case auth of Some a \<Rightarrow> [WithAuth a] | None \<Rightarrow> []))"

definition scan_cert ::
  "World \<Rightarrow> ImageRepository \<Rightarrow> Secret \<Rightarrow> remote_Option list
     \<Rightarrow> error \<times> ImageRepository + remote_Option list" where
  "scan_cert w imageRepo authSecret options =
     (case CertSecretRef (Spec imageRepo) of
        None \<Rightarrow> Inr options
      | Some certName \<Rightarrow>
          (case (if SecretRef (Spec imageRepo) = Some certName then Inr authSecret
                 else (case Get_Secret w certName of
                         Inl err \<Rightarrow>
                           Inl (err, SetImageRepositoryReadiness imageRepo ConditionFalse
                                       ReconciliationFailedReason (Error_msg err))
                       | Inr certSecret \<Rightarrow> Inr certSecret)) of
             Inl early \<Rightarrow> Inl early
           | Inr certSecret \<Rightarrow>
               (case transportFromSecret (tls_X509KeyPair w) (x509_SystemCertPool w)
                       (x509_AppendCertsFromPEM w) certSecret of
                  Inl err \<Rightarrow> Inl (err, imageRepo)
                | Inr tr \<Rightarrow> Inr (options @ [WithTransport tr]))))"

fun getPullSecrets :: "World \<Rightarrow> string list \<Rightarrow> error + Secret list" where
  "getPullSecrets w [] = Inr []"
| "getPullSecrets w (ips # rest) =
     (case Get_Secret w ips of
        Inl err \<Rightarrow> Inl err
      | Inr saAuthSecret \<Rightarrow>
          (case getPullSecrets w rest of
             Inl err \<Rightarrow> Inl err
           | Inr secrets \<Rightarrow> Inr (saAuthSecret # secrets)))"

definition scan_serviceAccount ::
  "World \<Rightarrow> ImageRepository \<Rightarrow> remote_Option list
     \<Rightarrow> error \<times> ImageRepository + remote_Option list" where
  "scan_serviceAccount w imageRepo options =
     (if ServiceAccountName (Spec imageRepo) \<noteq> []
      then (case Get_ServiceAccount w (ServiceAccountName (Spec imageRepo)) of
              Inl err \<Rightarrow>
                Inl (err, SetImageRepositoryReadiness imageRepo ConditionFalse
                            ReconciliationFailedReason (Error_msg err))
            | Inr serviceAccount \<Rightarrow>
                if length (ImagePullSecrets serviceAccount) > 0
                then (case getPullSecrets w (ImagePullSecrets serviceAccount) of
                        Inl err \<Rightarrow>
                          Inl (err, SetImageRepositoryReadiness imageRepo ConditionFalse
                                      ReconciliationFailedReason (Error_msg err))
                      | Inr imagePullSecrets \<Rightarrow>
                          (case k8schain_NewFromPullSecrets w imagePullSecrets of
                             Inl err \<Rightarrow> Inl (err, imageRepo)
                           | Inr keychain \<Rightarrow> Inr (options @ [WithAuthFromKeychain keychain])))
                else Inr options)
      else Inr options)"

text \<open>Lines 236 to 347: the options handed to \<open>remote.List\<close>, or the early end.\<close>

definition scan_options ::
  "World \<Rightarrow> ImageRepository \<Rightarrow> Reference \<Rightarrow> error \<times> ImageRepository + remote_Option list" where
  "scan_options w imageRepo ref =
     (case scan_auth w imageRepo ref of
        Inl early \<Rightarrow> Inl early
      | Inr (authSecret, options) \<Rightarrow>
          (case scan_cert w imageRepo authSecret options of
             Inl early \<Rightarrow> Inl early
           | Inr options \<Rightarrow>
               (case scan_serviceAccount w imageRepo options of
                  Inl early \<Rightarrow> Inl early
                | Inr options \<Rightarrow> Inr (options @ [WithContext]))))"

text \<open>
  Lines 366 to 377: for each exclusion pattern in turn, the tags of the full listing
  that it does not match are appended to \<open>filteredTags\<close>.
\<close>

fun exclusionLoop ::
  "(string \<Rightarrow> error + (string \<Rightarrow> bool)) \<Rightarrow> string list \<Rightarrow> string list \<Rightarrow> string list
     \<Rightarrow> error + string list" where
  "exclusionLoop compile [] tags filteredTags = Inr filteredTags"
| "exclusionLoop compile (regex # rest) tags filteredTags =
     (case compile regex of
        Inl err \<Rightarrow> Inl (Wrapped (''failed to compile regex '' @ regex @ '': '') err)
      | Inr r \<Rightarrow>
          exclusionLoop compile rest tags (filteredTags @ filter (\<lambda>tag. \<not> r tag) tags))"

definition scan ::
  "World \<Rightarrow> Database \<Rightarrow> ImageRepository \<Rightarrow> Reference
     \<Rightarrow> error option \<times> ImageRepository \<times> Database" where
  "scan w db imageRepo ref =
     (case scan_options w imageRepo ref of
        Inl (err, imageRepo) \<Rightarrow> (Some err, imageRepo, db)
      | Inr options \<Rightarrow>
          (case remote_List w (ContextString ref) options of
             Inl err \<Rightarrow>
               (Some err,
                SetImageRepositoryReadiness imageRepo ConditionFalse
                  ReconciliationFailedReason (Error_msg err),
                db)
           | Inr tags \<Rightarrow>
               (let imageRepo =
                      (if length (ExclusionList (Spec imageRepo)) = 0
                       then imageRepo\<lparr>Spec := (Spec imageRepo)\<lparr>ExclusionList :=
                              ExclusionList (Spec imageRepo) @ [CosignObjectRegex]\<rparr>\<rparr>
                       else imageRepo)
                in case exclusionLoop (regexp_Compile w) (ExclusionList (Spec imageRepo))
                          tags [] of
                     Inl err \<Rightarrow> (Some err, imageRepo, db)
                   | Inr filteredTags \<Rightarrow>
                       (let canonicalName = ContextString ref
                        in case SetTags db canonicalName filteredTags of
                             (Some err, db) \<Rightarrow>
                               (Some (Wrapped (''failed to set tags for ''
                                        @ quoted canonicalName @ '': '') err),
                                imageRepo, db)
                           | (None, db) \<Rightarrow>
                               (let scanTime = metav1_Now w;
                                    imageRepo = imageRepo\<lparr>Status := (Status imageRepo)
                                      \<lparr>LastScanResult := Some
                                         \<lparr>TagCount = length filteredTags,
                                          ScanTime = scanTime\<rparr>\<rparr>\<rparr>;
                                    imageRepo =
                                      (case ReconcileAnnotationValue (Annotations imageRepo) of
                                         Some token \<Rightarrow>
                                           imageRepo\<lparr>Status := (Status imageRepo)
                                             \<lparr>LastHandledReconcileRequest := token\<rparr>\<rparr>
                                       | None \<Rightarrow> imageRepo)
                                in (None,
                                    SetImageRepositoryReadiness imageRepo ConditionTrue
                                      ReconciliationSucceededReason
                                      (''successful scan, found ''
                                         @ itoa (length filteredTags) @ '' tags''),
                                    db))))))"

section \<open>The registry scan, second variant\<close>

text \<open>
  \<open>scan\<close> of the second variant, lines 806 to 895: a pull secret or no authentication
  at all (lines 811 to 837), the certificate (lines 839 to 863), then the listing and
  the store. There is no credential provider, no service account and no exclusion
  filter, and the manual trigger is not touched here.
\<close>

definition scan2_auth ::
  "World \<Rightarrow> ImageRepository \<Rightarrow> Reference
     \<Rightarrow> error \<times> ImageRepository + Secret \<times> remote_Option list" where
  "scan2_auth w imageRepo ref =
     (case SecretRef (Spec imageRepo) of
        Some secretName \<Rightarrow>
          (case Get_Secret w secretName of
             Inl err \<Rightarrow>
               Inl (err, MarkFalse imageRepo ReadyCondition FailedReason (Error_msg err))
           | Inr authSecret \<Rightarrow>
               (case authFromSecret (json_Decode w) (url_Parse w) authSecret ref of
                  Inl err \<Rightarrow>
                    Inl (err, MarkFalse imageRepo ReadyCondition FailedReason (Error_msg err))
                | Inr auth \<Rightarrow> Inr (authSecret, [WithAuth auth])))
      | None \<Rightarrow> Inr (zeroSecret, []))"

definition scan2_cert ::
  "World \<Rightarrow> ImageRepository \<Rightarrow> Secret \<Rightarrow> remote_Option list
     \<Rightarrow> error \<times> ImageRepository + remote_Option list" where
  "scan2_cert w imageRepo authSecret options =
     (case CertSecretRef (Spec imageRepo) of
        None \<Rightarrow> Inr options
      | Some certName \<Rightarrow>
          (case (if SecretRef (Spec imageRepo) = Some certName then Inr authSecret
                 else (case Get_Secret w certName of
                         Inl err \<Rightarrow>
                           Inl (err, MarkFalse imageRepo ReadyCondition FailedReason
                                       (Error_msg err))
                       | Inr certSecret \<Rightarrow> Inr certSecret)) of
             Inl early \<Rightarrow> Inl early
           | Inr certSecret \<Rightarrow>
               (case transportFromSecret (tls_X509KeyPair w) (x509_SystemCertPool w)
                       (x509_AppendCertsFromPEM w) certSecret of
                  Inl err \<Rightarrow> Inl (err, imageRepo)
                | Inr tr \<Rightarrow> Inr (options @ [WithTransport tr]))))"

definition scan2_options ::
  "World \<Rightarrow> ImageRepository \<Rightarrow> Reference \<Rightarrow> error \<times> ImageRepository + remote_Option list" where
  "scan2_options w imageRepo ref =
     (case scan2_auth w imageRepo ref of
        Inl early \<Rightarrow> Inl early
      | Inr (authSecret, options) \<Rightarrow> scan2_cert w imageRepo authSecret options)"

definition scan2 ::
  "World \<Rightarrow> Database \<Rightarrow> ImageRepository \<Rightarrow> Reference
     \<Rightarrow> error option \<times> ImageRepository \<times> Database" where
  "scan2 w db imageRepo ref =
     (case scan2_options w imageRepo ref of
        Inl (err, imageRepo) \<Rightarrow> (Some err, imageRepo, db)
      | Inr options \<Rightarrow>
          (case remote_List w (ContextString ref) options of
             Inl err \<Rightarrow>
               (Some err, MarkFalse imageRepo ReadyCondition FailedReason (Error_msg err), db)
           | Inr tags \<Rightarrow>
               (let canonicalName = ContextString ref
                in case SetTags db canonicalName tags of
                     (Some err, db) \<Rightarrow>
                       (Some (Wrapped (''failed to set tags for ''
                                @ quoted canonicalName @ '': '') err),
                        imageRepo, db)
                   | (None, db) \<Rightarrow>
                       (let scanTime = metav1_Now w;
                            imageRepo = imageRepo\<lparr>Status := (Status imageRepo)
                              \<lparr>LastScanResult := Some
                                 \<lparr>TagCount = length tags, ScanTime = scanTime\<rparr>\<rparr>\<rparr>
                        in (None,
                            MarkTrue imageRepo ReadyCondition SucceededReason
                              (''successful scan, found '' @ itoa (length tags) @ '' tags''),
                            db)))))"

section \<open>The API server\<close>

text \<open>
  The cluster as one reconciliation pass sees it: the stored resource, the events
  recorded so far, and the number of requests made for the resource. A request fails
  when the world says so for its number; a read of a resource that is not stored gives
  the not-found error. \<open>r.Patch\<close> and \<open>r.Update\<close> write the object they are given
  (an update that leaves a resource under deletion without finalizers removes it), and
  \<open>patchStatus\<close>, lines 569 to 580, reads the resource again and writes the new status
  into it. The patch helper of the second variant stamps the observed generation and
  writes the object. Metrics go to a recorder that nothing reads, and are left out.
\<close>

record Cluster =
  stored :: "ImageRepository option"
  events :: "(string \<times> string \<times> string) list"
  api_calls :: nat

definition api_request :: "World \<Rightarrow> Cluster \<Rightarrow> error option \<times> Cluster" where
  "api_request w cl = (api_error w (api_calls cl), cl\<lparr>api_calls := Suc (api_calls cl)\<rparr>)"

definition Get :: "World \<Rightarrow> Cluster \<Rightarrow> (error + ImageRepository) \<times> Cluster" where
  "Get w cl =
     (case api_request w cl of
        (Some err, cl) \<Rightarrow> (Inl err, cl)
      | (None, cl) \<Rightarrow>
          (case stored cl of
             None \<Rightarrow> (Inl (NotFound ''imagerepositories not found''), cl)
           | Some obj \<Rightarrow> (Inr obj, cl)))"

definition Patch :: "World \<Rightarrow> Cluster \<Rightarrow> ImageRepository \<Rightarrow> error option \<times> Cluster" where
  "Patch w cl obj =
     (case api_request w cl of
        (Some err, cl) \<Rightarrow> (Some err, cl)
      | (None, cl) \<Rightarrow> (None, cl\<lparr>stored := Some obj\<rparr>))"

definition Update :: "World \<Rightarrow> Cluster \<Rightarrow> ImageRepository \<Rightarrow> error option \<times> Cluster" where
  "Update w cl obj =
     (case api_request w cl of
        (Some err, cl) \<Rightarrow> (Some err, cl)
      | (None, cl) \<Rightarrow>
          (None, cl\<lparr>stored := (if DeletionTimestamp obj \<noteq> None \<and> Finalizers obj = []
                                 then None else Some obj)\<rparr>))"

definition patchStatus ::
  "World \<Rightarrow> Cluster \<Rightarrow> ImageRepositoryStatus \<Rightarrow> error option \<times> Cluster" where
  "patchStatus w cl newStatus =
     (case Get w cl of
        (Inl err, cl) \<Rightarrow> (Some err, cl)
      | (Inr res, cl) \<Rightarrow>
          (case api_request w cl of
             (Some err, cl) \<Rightarrow> (Some err, cl)
           | (None, cl) \<Rightarrow> (None, cl\<lparr>stored := Some (res\<lparr>Status := newStatus\<rparr>)\<rparr>)))"

definition patcher_Patch ::
  "World \<Rightarrow> Cluster \<Rightarrow> ImageRepository \<Rightarrow> error option \<times> ImageRepository \<times> Cluster" where
  "patcher_Patch w cl obj =
     (let obj = obj\<lparr>Status := (Status obj)\<lparr>ObservedGeneration := Generation obj\<rparr>\<rparr>
      in case api_request w cl of
           (Some err, cl) \<Rightarrow> (Some err, obj, cl)
         | (None, cl) \<Rightarrow> (None, obj, cl\<lparr>stored := Some obj\<rparr>))"

definition EventSeverityError :: string where
  "EventSeverityError = ''error''"

definition EventSeverityInfo :: string where
  "EventSeverityInfo = ''info''"

definition EventReasonScanFailed :: string where
  "EventReasonScanFailed = ''ScanFailed''"

definition EventReasonScanSucceeded :: string where
  "EventReasonScanSucceeded = ''ScanSucceeded''"

text \<open>\<open>event\<close> of the first variant, lines 522 to 528.\<close>

definition event :: "Cluster \<Rightarrow> string \<Rightarrow> string \<Rightarrow> Cluster" where
  "event cl severity msg =
     (let eventtype = (if severity = EventSeverityError then ''Warning'' else ''Normal'')
      in cl\<lparr>events := events cl @ [(eventtype, severity, msg)]\<rparr>)"

text \<open>\<open>r.Event\<close> of the second variant, from the controller helpers.\<close>

definition Event :: "Cluster \<Rightarrow> string \<Rightarrow> string \<Rightarrow> string \<Rightarrow> Cluster" where
  "Event cl severity reason msg = cl\<lparr>events := events cl @ [(severity, reason, msg)]\<rparr>"

definition AddFinalizer :: "ImageRepository \<Rightarrow> string \<Rightarrow> ImageRepository" where
  "AddFinalizer obj finalizer =
     (if finalizer \<in> set (Finalizers obj) then obj
      else obj\<lparr>Finalizers := Finalizers obj @ [finalizer]\<rparr>)"

definition RemoveFinalizer :: "ImageRepository \<Rightarrow> string \<Rightarrow> ImageRepository" where
  "RemoveFinalizer obj finalizer =
     obj\<lparr>Finalizers := filter (\<lambda>f. f \<noteq> finalizer) (Finalizers obj)\<rparr>"

section \<open>Reconciliation\<close>

text \<open>
  What one pass of \<open>Reconcile\<close> leaves behind: the \<open>ctrl.Result\<close> and the error it
  returns, the resource as the pass last held it in memory (none when it could not be
  read), the cluster and the store. \<open>scanned\<close> is not in the source: it records whether
  the pass called \<open>scan\<close>, and what \<open>scan\<close> returned.
\<close>

record Outcome =
  res_Requeue :: bool
  res_RequeueAfter :: Duration
  retErr :: "error option"
  final_imageRepo :: "ImageRepository option"
  final_cluster :: Cluster
  final_db :: Database
  scanned :: "error option option"

definition outcome ::
  "bool \<Rightarrow> Duration \<Rightarrow> error option \<Rightarrow> ImageRepository option \<Rightarrow> Cluster \<Rightarrow> Database
     \<Rightarrow> error option option \<Rightarrow> Outcome" where
  "outcome requeue after err imageRepo cl db sc =
     \<lparr>res_Requeue = requeue, res_RequeueAfter = after, retErr = err,
      final_imageRepo = imageRepo, final_cluster = cl, final_db = db, scanned = sc\<rparr>"

subsection \<open>First variant\<close>

text \<open>Lines 185 to 210 of \<open>Reconcile\<close>: the throttle, the scan, the status patch, the events.\<close>

definition Reconcile_scan ::
  "World \<Rightarrow> Cluster \<Rightarrow> Database \<Rightarrow> Time \<Rightarrow> ImageRepository \<Rightarrow> Reference \<Rightarrow> Outcome" where
  "Reconcile_scan w cl db reconcileStart imageRepo ref =
     (case shouldScan db imageRepo reconcileStart of
        (ok, when, Some err) \<Rightarrow> outcome True 0 (Some err) (Some imageRepo) cl db None
      | (ok, when, None) \<Rightarrow>
          if ok
          then (case scan w db imageRepo ref of
                  (reconcileErr, imageRepo, db) \<Rightarrow>
                    (case patchStatus w cl (Status imageRepo) of
                       (Some err, cl) \<Rightarrow>
                         outcome True 0 (Some err) (Some imageRepo) cl db (Some reconcileErr)
                     | (None, cl) \<Rightarrow>
                         (case reconcileErr of
                            Some err \<Rightarrow>
                              outcome True 0 (Some err) (Some imageRepo)
                                (event cl EventSeverityError (Error_msg err)) db
                                (Some reconcileErr)
                          | None \<Rightarrow>
                              outcome False when None (Some imageRepo)
                                (case FindStatusCondition (Conditions (Status imageRepo))
                                        ReconciliationSucceededReason of
                                   Some rc \<Rightarrow> event cl EventSeverityInfo (cond_Message rc)
                                 | None \<Rightarrow> cl)
                                db (Some reconcileErr))))
          else outcome False when None (Some imageRepo) cl db None)"

text \<open>Lines 150 to 183: the metrics reference, the image reference, the canonical name.\<close>

definition Reconcile_active ::
  "World \<Rightarrow> Cluster \<Rightarrow> Database \<Rightarrow> Time \<Rightarrow> ImageRepository \<Rightarrow> Outcome" where
  "Reconcile_active w cl db reconcileStart imageRepo =
     (case (if MetricsRecorder_set w then reference_GetReference w else None) of
        Some err \<Rightarrow> outcome False 0 (Some err) (Some imageRepo) cl db None
      | None \<Rightarrow>
          (case parseImageReference (name_ParseReference w) (Spec_Image (Spec imageRepo)) of
             Inl err \<Rightarrow>
               (let imageRepo = SetImageRepositoryReadiness imageRepo ConditionFalse
                                  ImageURLInvalidReason (Error_msg err)
                in case patchStatus w cl (Status imageRepo) of
                     (Some err, cl) \<Rightarrow> outcome True 0 (Some err) (Some imageRepo) cl db None
                   | (None, cl) \<Rightarrow>
                       (let err = Wrapped (''Unable to parse image name: ''
                                    @ Spec_Image (Spec imageRepo) @ '': '') err
                        in outcome True 0 (Some err) (Some imageRepo)
                             (event cl EventSeverityError (Error_msg err)) db None))
           | Inr ref \<Rightarrow>
               (let c = ContextString ref
                in if CanonicalImageName (Status imageRepo) \<noteq> c
                   then (let imageRepo = imageRepo\<lparr>Status := (Status imageRepo)
                                           \<lparr>CanonicalImageName := c\<rparr>\<rparr>
                         in case patchStatus w cl (Status imageRepo) of
                              (Some err, cl) \<Rightarrow>
                                outcome True 0 (Some err) (Some imageRepo) cl db None
                            | (None, cl) \<Rightarrow>
                                Reconcile_scan w cl db reconcileStart imageRepo ref)
                   else Reconcile_scan w cl db reconcileStart imageRepo ref)))"

text \<open>
  \<open>Reconcile\<close>, lines 97 to 211: the read, the finalizer, deletion and suspension, then
  the active part.
\<close>

definition Reconcile :: "World \<Rightarrow> Cluster \<Rightarrow> Database \<Rightarrow> Time \<Rightarrow> Outcome" where
  "Reconcile w cl db reconcileStart =
     (case Get w cl of
        (Inl err, cl) \<Rightarrow> outcome False 0 (IgnoreNotFound err) None cl db None
      | (Inr imageRepo, cl) \<Rightarrow>
          (case (if ImageRepositoryFinalizer \<notin> set (Finalizers imageRepo)
                 then (let imageRepo = AddFinalizer imageRepo ImageRepositoryFinalizer
                       in case Patch w cl imageRepo of
                            (Some err, cl) \<Rightarrow> (Some err, imageRepo, cl)
                          | (None, cl) \<Rightarrow> (None, imageRepo, cl))
                 else (None, imageRepo, cl)) of
             (Some err, imageRepo, cl) \<Rightarrow>
               outcome False 0 (Some err) (Some imageRepo) cl db None
           | (None, imageRepo, cl) \<Rightarrow>
               if DeletionTimestamp imageRepo \<noteq> None
               then (let imageRepo = RemoveFinalizer imageRepo ImageRepositoryFinalizer
                     in case Update w cl imageRepo of
                          (Some err, cl) \<Rightarrow>
                            outcome False 0 (Some err) (Some imageRepo) cl db None
                        | (None, cl) \<Rightarrow> outcome False 0 None (Some imageRepo) cl db None)
               else if Suspend (Spec imageRepo)
               then (let imageRepo = SetImageRepositoryReadiness imageRepo ConditionFalse
                           SuspendedReason
                           ''ImageRepository is suspended, skipping reconciliation''
                     in case patchStatus w cl (Status imageRepo) of
                          (Some err, cl) \<Rightarrow>
                            outcome True 0 (Some err) (Some imageRepo) cl db None
                        | (None, cl) \<Rightarrow> outcome False 0 None (Some imageRepo) cl db None)
               else Reconcile_active w cl db reconcileStart imageRepo))"

subsection \<open>Second variant\<close>

text \<open>
  Lines 762 to 803 of the second \<open>Reconcile\<close>, the part that runs between the
  registration of the deferred function and its call: the values returned, the resource,
  the cluster, the store, and whether \<open>scan\<close> was called.
\<close>

definition Reconcile2_body ::
  "World \<Rightarrow> Cluster \<Rightarrow> Database \<Rightarrow> Time \<Rightarrow> ImageRepository
     \<Rightarrow> (bool \<times> Duration \<times> error option) \<times> ImageRepository \<times> Cluster \<times> Database
         \<times> error option option" where
  "Reconcile2_body w cl db reconcileStart imageRepo =
     (case name_ParseReference w (Spec_Image (Spec imageRepo)) of
        Inl err \<Rightarrow>
          ((True, 0, Some err),
           MarkFalse imageRepo ReadyCondition ImageURLInvalidReason (Error_msg err),
           cl, db, None)
      | Inr ref \<Rightarrow>
          (let c = ContextString ref;
               imageRepo = (if CanonicalImageName (Status imageRepo) \<noteq> c
                            then imageRepo\<lparr>Status := (Status imageRepo)
                                   \<lparr>CanonicalImageName := c\<rparr>\<rparr>
                            else imageRepo)
           in case shouldScan2 db imageRepo reconcileStart of
                (ok, when, Some err) \<Rightarrow> ((True, 0, Some err), imageRepo, cl, db, None)
              | (ok, when, None) \<Rightarrow>
                  if ok
                  then (case scan2 w db imageRepo ref of
                          (Some reconcileErr, imageRepo, db) \<Rightarrow>
                            ((True, 0, Some reconcileErr), imageRepo,
                             Event cl EventSeverityError EventReasonScanFailed
                               (Error_msg reconcileErr),
                             db, Some (Some reconcileErr))
                        | (None, imageRepo, db) \<Rightarrow>
                            ((False, when, None), imageRepo,
                             (case FindStatusCondition (Conditions (Status imageRepo))
                                     SucceededReason of
                                Some rc \<Rightarrow>
                                  Event cl EventSeverityInfo EventReasonScanSucceeded
                                    (cond_Message rc)
                              | None \<Rightarrow> cl),
                             db, Some None))
                  else ((False, when, None), imageRepo, cl, db, None)))"

text \<open>
  Lines 743 to 760, the deferred function: the manual trigger is taken as handled, the
  resource is patched, and a failure of the patch is added to the error returned.
\<close>

definition Reconcile2_deferred ::
  "World \<Rightarrow> (bool \<times> Duration \<times> error option) \<times> ImageRepository \<times> Cluster \<times> Database
         \<times> error option option \<Rightarrow> Outcome" where
  "Reconcile2_deferred w returned =
     (case returned of
        ((requeue, after, err), imageRepo, cl, db, sc) \<Rightarrow>
          (let imageRepo =
                 (case ReconcileAnnotationValue (Annotations imageRepo) of
                    Some token \<Rightarrow>
                      imageRepo\<lparr>Status := (Status imageRepo)
                        \<lparr>LastHandledReconcileRequest := token\<rparr>\<rparr>
                  | None \<Rightarrow> imageRepo)
           in case patcher_Patch w cl imageRepo of
                (Some patchErr, imageRepo, cl) \<Rightarrow>
                  outcome requeue after (NewAggregate [err, Some patchErr]) (Some imageRepo)
                    cl db sc
              | (None, imageRepo, cl) \<Rightarrow>
                  outcome requeue after err (Some imageRepo) cl db sc))"

text \<open>\<open>Reconcile\<close> of the second variant, lines 721 to 804.\<close>

definition Reconcile2 :: "World \<Rightarrow> Cluster \<Rightarrow> Database \<Rightarrow> Time \<Rightarrow> Outcome" where
  "Reconcile2 w cl db reconcileStart =
     (case Get w cl of
        (Inl err, cl) \<Rightarrow> outcome False 0 (IgnoreNotFound err) None cl db None
      | (Inr imageRepo, cl) \<Rightarrow>
          if Suspend (Spec imageRepo)
          then outcome False 0 None (Some imageRepo) cl db None
          else (case patch_NewHelper w of
                  Some err \<Rightarrow> outcome True 0 (Some err) (Some imageRepo) cl db None
                | None \<Rightarrow>
                    Reconcile2_deferred w
                      (Reconcile2_body w cl db reconcileStart imageRepo)))"

section \<open>The exclusion filter in the words of the spec\<close>

text \<open>
  What the spec says of the exclusion filter, to be compared with the loop in \<open>scan\<close>:
  an empty exclusion list is defaulted to the single signature pattern; each pattern is
  applied on its own to the full listing, keeping the tags it does not match; and the
  results are put one after the other.
\<close>

definition matchesPattern :: "World \<Rightarrow> string \<Rightarrow> string \<Rightarrow> bool" where
  "matchesPattern w regex tag =
     (case regexp_Compile w regex of Inr r \<Rightarrow> r tag | Inl err \<Rightarrow> False)"

definition effectiveExclusionList :: "ImageRepository \<Rightarrow> string list" where
  "effectiveExclusionList ir =
     (if ExclusionList (Spec ir) = [] then [CosignObjectRegex] else ExclusionList (Spec ir))"

definition spec_filteredTags :: "World \<Rightarrow> string list \<Rightarrow> string list \<Rightarrow> string list" where
  "spec_filteredTags w patterns tags =
     concat (map (\<lambda>regex. filter (\<lambda>tag. \<not> matchesPattern w regex tag) tags) patterns)"

section \<open>Concrete resources and stores\<close>

text \<open>
  A repository resource for \<open>docker.io/library/alpine\<close> with a given last scan result
  and scan interval, no annotations and no credentials; a store holding one tag for it;
  and a store whose reads fail.
\<close>

definition exampleSpec :: "Duration \<Rightarrow> ImageRepositorySpec" where
  "exampleSpec interval =
     \<lparr>Spec_Image = ''docker.io/library/alpine'', Interval = interval, Timeout = None,
      SecretRef = None, CertSecretRef = None, ServiceAccountName = [],
      ExclusionList = [], Suspend = False\<rparr>"

definition exampleRepo :: "ScanResult option \<Rightarrow> Duration \<Rightarrow> ImageRepository" where
  "exampleRepo lastScan interval =
     \<lparr>Annotations = Map.empty, Finalizers = [ImageRepositoryFinalizer],
      DeletionTimestamp = None, Generation = 1, Spec = exampleSpec interval,
      Status = \<lparr>CanonicalImageName = ''index.docker.io/library/alpine'',
                LastScanResult = lastScan, LastHandledReconcileRequest = [],
                Conditions = [], ObservedGeneration = 0\<rparr>\<rparr>"

definition exampleDb :: Database where
  "exampleDb =
     \<lparr>db_content = [''index.docker.io/library/alpine'' \<mapsto> [''latest'']],
      db_readError = (\<lambda>repo. None), db_writeError = (\<lambda>repo. None), db_setCalls = []\<rparr>"

definition failingDb :: Database where
  "failingDb = exampleDb\<lparr>db_readError := (\<lambda>repo. Some (Error ''database closed''))\<rparr>"

text \<open>
  A stand-in for \<open>name.ParseReference\<close> on the alpine image: a reference that starts
  with \<open>docker.io/library/alpine\<close> parses, with the registry go-containerregistry gives
  for the \<open>docker.io\<close> alias; anything else is refused, in the words the library has
  for a reference it cannot parse (one whose repository has a capital letter, say).
\<close>

definition alpineReference :: Reference where
  "alpineReference =
     \<lparr>RegistryStr = ''index.docker.io'', ContextString = ''index.docker.io/library/alpine'',
      Identifier = ''latest''\<rparr>"

definition exampleParseReference :: "string \<Rightarrow> error + Reference" where
  "exampleParseReference url =
     (if HasPrefix url ''docker.io/library/alpine'' then Inr alpineReference
      else Inl (Error (''could not parse reference: '' @ url)))"

text \<open>
  A key-pair parser that refuses empty PEM data, a system pool with one root, an
  \<open>AppendCertsFromPEM\<close> that adds the data when it opens as a PEM certificate does and
  adds nothing otherwise, and a TLS secret with the given data.
\<close>

definition exampleX509KeyPair :: "string \<Rightarrow> string \<Rightarrow> error + Certificate" where
  "exampleX509KeyPair certPEM keyPEM =
     (if certPEM = [] \<or> keyPEM = [] then Inl (Error ''tls: failed to find any PEM data'')
      else Inr (Certificate certPEM keyPEM))"

definition exampleSystemCertPool :: "error + CertPool" where
  "exampleSystemCertPool = Inr \<lparr>pool_system = [''system root''], pool_appended = []\<rparr>"

definition exampleAppendCertsFromPEM :: "CertPool \<Rightarrow> string \<Rightarrow> CertPool" where
  "exampleAppendCertsFromPEM pool pem =
     (if HasPrefix pem ''-----BEGIN CERTIFICATE-----''
      then pool\<lparr>pool_appended := pool_appended pool @ [pem]\<rparr>
      else pool)"


section \<open>A concrete world\<close>

text \<open>
  The answers of a quiet world: a registry that lists three tags for every repository,
  one of them a signature object; no credentials from the provider; no secrets and no
  service accounts; an API server that never fails; and a regular expression library
  that knows the signature pattern \<open>^.*\.sig$\<close>, which matches a tag when it ends in
  \<open>.sig\<close> and has no line feed before that. A second world has a registry that is down.
\<close>

definition cosignMatch :: "string \<Rightarrow> bool" where
  "cosignMatch tag =
     (suffix ''.sig'' tag \<and> CHR 0x0A \<notin> set (take (length tag - 4) tag))"

definition exampleCompile :: "string \<Rightarrow> error + (string \<Rightarrow> bool)" where
  "exampleCompile regex =
     (if regex = CosignObjectRegex then Inr cosignMatch
      else if regex = ''^v'' then Inr (\<lambda>tag. prefix ''v'' tag)
      else Inl (Error (''error parsing regexp: '' @ regex)))"

definition exampleWorld :: World where
  "exampleWorld =
     \<lparr>name_ParseReference = exampleParseReference,
      url_Parse = simple_url_Parse,
      json_Decode = (\<lambda>bytes. Inl (Error ''unexpected end of JSON input'')),
      tls_X509KeyPair = exampleX509KeyPair,
      x509_SystemCertPool = exampleSystemCertPool,
      x509_AppendCertsFromPEM = exampleAppendCertsFromPEM,
      regexp_Compile = exampleCompile,
      metav1_Now = 1700000000000000000,
      login_Login = (\<lambda>image ref. Inr None),
      k8schain_NewFromPullSecrets = (\<lambda>secrets. Inr (Keychain secrets)),
      remote_List = (\<lambda>repo options. Inr [''v1.0.0'', ''v1.0.0.sig'', ''latest'']),
      Get_Secret = (\<lambda>secretName. Inl (NotFound (''secrets '' @ quoted secretName @ '' not found''))),
      Get_ServiceAccount =
        (\<lambda>accountName. Inl (NotFound (''serviceaccounts '' @ quoted accountName @ '' not found''))),
      api_error = (\<lambda>n. None),
      MetricsRecorder_set = False,
      reference_GetReference = None,
      patch_NewHelper = None\<rparr>"

definition registryDownWorld :: World where
  "registryDownWorld =
     exampleWorld\<lparr>remote_List := (\<lambda>repo options. Inl (Error ''connection refused''))\<rparr>"

section \<open>The manual trigger in the words of the spec\<close>

text \<open>
  A pass has recorded a token into \<open>status.lastHandledReconcileRequest\<close> when the
  resource it held last has it there, and the cluster has it when the stored resource
  has it there.
\<close>

definition handledInMemory :: "Outcome \<Rightarrow> string \<Rightarrow> bool" where
  "handledInMemory out token =
     (case final_imageRepo out of
        None \<Rightarrow> False
      | Some ir \<Rightarrow> LastHandledReconcileRequest (Status ir) = token)"

definition handledInCluster :: "Outcome \<Rightarrow> string \<Rightarrow> bool" where
  "handledInCluster out token =
     (case stored (final_cluster out) of
        None \<Rightarrow> False
      | Some ir \<Rightarrow> LastHandledReconcileRequest (Status ir) = token)"

text \<open>
  A resource scanned five seconds ago, with an interval of a minute, on which the manual
  trigger \<open>t1\<close> has been set and not yet handled; and a cluster that stores a resource.
\<close>

definition triggeredRepo :: ImageRepository where
  "triggeredRepo =
     (exampleRepo (Some \<lparr>TagCount = 1, ScanTime = 0\<rparr>) (60 * Second))
       \<lparr>Annotations := [ReconcileRequestAnnotation \<mapsto> ''t1'']\<rparr>"

definition clusterWith :: "ImageRepository \<Rightarrow> Cluster" where
  "clusterWith obj = \<lparr>stored = Some obj, events = [], api_calls = 0\<rparr>"

section \<open>Verified properties\<close>

subsection \<open>The scan scheduler\<close>

text \<open>
  C1. A repository whose status records no last scan result is due at every \<open>now\<close>,
  and the recommended wait is the full configured scan interval.
\<close>

theorem shouldScan_never_scanned:
  assumes "LastScanResult (Status repo) = None"
  shows "shouldScan db repo now = (True, Interval (Spec repo), None)"
  using assms by (simp add: shouldScan_def)

theorem shouldScan_never_scanned_witness:
  "LastScanResult (Status (exampleRepo None (60 * Second))) = None
   \<and> shouldScan exampleDb (exampleRepo None (60 * Second)) 1700000000000000000
       = (True, 60 * Second, None)"
  using shouldScan_never_scanned [of "exampleRepo None (60 * Second)" exampleDb 1700000000000000000]
  by (simp add: exampleRepo_def exampleSpec_def)

text \<open>
  C3. With a last scan result recorded and no manual trigger pending, an error of the
  tag store's read for the canonical name is handed to the caller, and the scan is not
  due: the error never turns into a due scan.
\<close>

theorem shouldScan_store_error:
  assumes "LastScanResult (Status repo) = Some lastScanResult"
    and "\<not> manualTriggerPending repo"
    and "Tags db (CanonicalImageName (Status repo)) = Inl err"
  shows "shouldScan db repo now = (False, Interval (Spec repo), Some err)"
  using assms
  by (simp add: shouldScan_def manualTriggerPending_def split: option.splits)

theorem shouldScan_store_error_witness:
  "shouldScan failingDb
     (exampleRepo (Some \<lparr>TagCount = 1, ScanTime = 0\<rparr>) (60 * Second)) 5000000000
   = (False, 60 * Second, Some (Error ''database closed''))"
  using shouldScan_store_error
    [of "exampleRepo (Some \<lparr>TagCount = 1, ScanTime = 0\<rparr>) (60 * Second)"
        "\<lparr>TagCount = 1, ScanTime = 0\<rparr>" failingDb "Error ''database closed''" 5000000000]
  by (simp add: exampleRepo_def exampleSpec_def failingDb_def exampleDb_def
      manualTriggerPending_def ReconcileAnnotationValue_def Tags_def)

text \<open>
  C10. The two \<open>shouldScan\<close> functions of the source, that of the first controller
  variant and that of the second, agree on every resource, time and store: the same
  due flag, the same wait, the same error.
\<close>

theorem shouldScan_variants_equal:
  "shouldScan2 db repo now = shouldScan db repo now"
  by (simp add: shouldScan_def shouldScan2_def)

text \<open>Signed 64-bit arithmetic, and the subtraction of instants where it is exact.\<close>

lemma sint_word_of_int_64:
  "- 9223372036854775808 \<le> d \<Longrightarrow> d \<le> 9223372036854775807 \<Longrightarrow> sint (word_of_int d :: 64 word) = d"
  by (simp add: sint_sbintrunc' signed_take_bit_int_eq_self)

lemma sint_range_64: "- 9223372036854775808 \<le> sint (d :: 64 word) \<and> sint d \<le> 9223372036854775807"
  using sint_lt [of d] sint_ge [of d] by simp

lemma Time_Sub_exact:
  "- 9223372036854775808 \<le> t - u \<Longrightarrow> t - u \<le> 9223372036854775807 \<Longrightarrow> Time_Sub t u = word_of_int (t - u)"
  unfolding Time_Sub_def Let_def by (simp del: of_int_diff)

lemma remainder_exact:
  assumes "- 9223372036854775808 \<le> t - u" "t - u \<le> 9223372036854775807"
    and "- 9223372036854775808 \<le> sint i - (t - u)" "sint i - (t - u) \<le> 9223372036854775807"
  shows "i - Time_Sub t u = word_of_int (sint i - (t - u))"
    and "sint (i - Time_Sub t u) = sint i - (t - u)"
proof -
  have "word_of_int (sint i) = i"
    by simp
  then have "i - Time_Sub t u = word_of_int (sint i) - word_of_int (t - u)"
    using assms(1,2) by (simp only: Time_Sub_exact)
  then show eq: "i - Time_Sub t u = word_of_int (sint i - (t - u))"
    by (simp only: of_int_diff)
  show "sint (i - Time_Sub t u) = sint i - (t - u)"
    unfolding eq using assms(3,4) by (rule sint_word_of_int_64)
qed

lemma shouldScan_timed:
  assumes "LastScanResult (Status repo) = Some lastScanResult"
    and "\<not> manualTriggerPending repo"
    and "Tags db (CanonicalImageName (Status repo)) = Inr tags" and "tags \<noteq> []"
  shows "shouldScan db repo now =
          (let when = Interval (Spec repo) - Time_Sub now (ScanTime lastScanResult)
           in if when <s Second then (True, Interval (Spec repo), None) else (False, when, None))"
  using assms by (simp add: shouldScan_def manualTriggerPending_def Let_def split: option.splits)

lemma due_exact:
  assumes "- 9223372036854775808 \<le> t - u" "t - u \<le> 9223372036854775807"
    and "- 9223372036854775808 \<le> sint i - (t - u)" "sint i - (t - u) \<le> 9223372036854775807"
  shows "(i - Time_Sub t u <s Second) = (sint i - (t - u) < 1000000000)"
  using remainder_exact(2) [OF assms] by (simp add: word_sless_alt Second_def)

lemma late_due: "i - Time_Sub (u + sint i + 1000000000) u <s Second"
proof (cases "sint i + 1000000000 \<le> 9223372036854775807")
  case True
  then have "i - Time_Sub (u + sint i + 1000000000) u <s Second"
    using due_exact [of "u + sint i + 1000000000" u i] sint_range_64 [of i] by simp
  then show ?thesis .
next
  case False
  then have "Time_Sub (u + sint i + 1000000000) u = maxDuration"
    using sint_range_64 [of i] by (simp add: Time_Sub_def Let_def)
  moreover have "sint (i - maxDuration) = sint i - 9223372036854775807"
    using False sint_range_64 [of i]
    by (simp add: sint_word_diff signed_take_bit_int_eq_self maxDuration_def)
  ultimately show ?thesis using sint_range_64 [of i]
    by (simp add: word_sless_alt Second_def)
qed

text \<open>
  C2, as amended. Let a last scan be recorded at time \<open>T\<close>, the interval be \<open>I\<close>, no
  manual trigger be pending and the store hold at least one tag for the canonical name.
  At \<open>now = T + I - 2s\<close> the scan is not due and the wait is two seconds, provided
  \<open>I - 2s\<close> is itself a duration (no less than the smallest 64-bit count of nanoseconds;
  so for every interval that is not negative). At \<open>now = T + I + 1s\<close> the scan is due,
  for every interval. In general the remainder is computed as \<open>I - now.Sub(T)\<close> in the
  wrapping 64-bit arithmetic of durations, with \<open>now.Sub(T)\<close> saturated; a computed
  remainder below one second, negative ones included, is due now, and otherwise the scan
  is not due and the wait is the computed remainder. Whenever \<open>now - T\<close> and
  \<open>I - (now - T)\<close> both fit a signed 64-bit count of nanoseconds, the computed remainder
  is exactly \<open>I - (now - T)\<close>.
\<close>

theorem shouldScan_remainder:
  assumes "LastScanResult (Status repo) = Some lastScanResult"
    and "\<not> manualTriggerPending repo"
    and "Tags db (CanonicalImageName (Status repo)) = Inr tags"
    and "tags \<noteq> []"
  shows "(- 9223372036854775808 \<le> sint (Interval (Spec repo)) - 2000000000 \<longrightarrow>
            shouldScan db repo
              (ScanTime lastScanResult + sint (Interval (Spec repo)) - 2000000000)
            = (False, 2 * Second, None))
       \<and> shouldScan db repo
            (ScanTime lastScanResult + sint (Interval (Spec repo)) + 1000000000)
          = (True, Interval (Spec repo), None)
       \<and> shouldScan db repo now
          = (let when = Interval (Spec repo) - Time_Sub now (ScanTime lastScanResult)
             in if when <s Second then (True, Interval (Spec repo), None)
                else (False, when, None))
       \<and> (- 9223372036854775808 \<le> now - ScanTime lastScanResult
            \<and> now - ScanTime lastScanResult \<le> 9223372036854775807
            \<and> - 9223372036854775808
                 \<le> sint (Interval (Spec repo)) - (now - ScanTime lastScanResult)
            \<and> sint (Interval (Spec repo)) - (now - ScanTime lastScanResult)
                 \<le> 9223372036854775807 \<longrightarrow>
          shouldScan db repo now
          = (if sint (Interval (Spec repo)) - (now - ScanTime lastScanResult) < 1000000000
             then (True, Interval (Spec repo), None)
             else (False,
                   word_of_int (sint (Interval (Spec repo)) - (now - ScanTime lastScanResult)),
                   None)))"
proof -
  define i where "i = Interval (Spec repo)"
  define u where "u = ScanTime lastScanResult"
  have timed: "shouldScan db repo t
      = (let when = i - Time_Sub t u
         in if when <s Second then (True, i, None) else (False, when, None))" for t
    unfolding i_def u_def using assms by (rule shouldScan_timed)
  have exact: "shouldScan db repo t
      = (if sint i - (t - u) < 1000000000 then (True, i, None)
         else (False, word_of_int (sint i - (t - u)), None))"
    if "- 9223372036854775808 \<le> t - u" "t - u \<le> 9223372036854775807"
      "- 9223372036854775808 \<le> sint i - (t - u)" "sint i - (t - u) \<le> 9223372036854775807"
    for t
  proof -
    have "(i - Time_Sub t u <s Second) = (sint i - (t - u) < 1000000000)"
      using that by (rule due_exact)
    moreover have "i - Time_Sub t u = word_of_int (sint i - (t - u))"
      using that by (rule remainder_exact(1))
    ultimately show ?thesis
      by (simp add: timed Let_def del: of_int_diff)
  qed
  have early: "shouldScan db repo (u + sint i - 2000000000) = (False, 2 * Second, None)"
    if "- 9223372036854775808 \<le> sint i - 2000000000"
    using that exact [of "u + sint i - 2000000000"] sint_range_64 [of i]
    by (simp add: Second_def)
  have late: "shouldScan db repo (u + sint i + 1000000000) = (True, i, None)"
    by (simp add: timed Let_def late_due)
  show ?thesis
    using early late timed exact unfolding i_def u_def by blast
qed

theorem shouldScan_remainder_witness:
  "shouldScan exampleDb (exampleRepo (Some \<lparr>TagCount = 1, ScanTime = 5000000000\<rparr>) (60 * Second))
     63000000000 = (False, 2 * Second, None)
   \<and> shouldScan exampleDb (exampleRepo (Some \<lparr>TagCount = 1, ScanTime = 5000000000\<rparr>) (60 * Second))
     66000000000 = (True, 60 * Second, None)
   \<and> shouldScan exampleDb (exampleRepo (Some \<lparr>TagCount = 1, ScanTime = 5000000000\<rparr>) (60 * Second))
     35000000000 = (False, 30 * Second, None)"
proof -
  let ?repo = "exampleRepo (Some \<lparr>TagCount = 1, ScanTime = 5000000000\<rparr>) (60 * Second)"
  have h1: "LastScanResult (Status ?repo) = Some \<lparr>TagCount = 1, ScanTime = 5000000000\<rparr>"
    by (simp add: exampleRepo_def)
  have h2: "\<not> manualTriggerPending ?repo"
    by (simp add: exampleRepo_def manualTriggerPending_def ReconcileAnnotationValue_def)
  have h3: "Tags exampleDb (CanonicalImageName (Status ?repo)) = Inr [''latest'']"
    by (simp add: exampleRepo_def exampleDb_def Tags_def)
  have h4: "[''latest''] \<noteq> []"
    by simp
  note r = shouldScan_remainder [OF h1 h2 h3 h4, of 35000000000]
  show ?thesis
    using r [THEN conjunct1] r [THEN conjunct2, THEN conjunct1]
      r [THEN conjunct2, THEN conjunct2, THEN conjunct2]
    by (simp add: exampleRepo_def exampleSpec_def Second_def)
qed

text \<open>
  The claim as first stated fails where the arithmetic leaves the 64-bit range. With the
  largest interval and a clock one nanosecond behind the last scan, the remainder
  \<open>I - (now - T)\<close> is \<open>2^63\<close> nanoseconds, far above one second, yet the computed
  remainder wraps to the smallest duration and the scan is due. With the smallest
  interval, \<open>now = T + I - 2s\<close> saturates the subtraction, the computed remainder is
  zero and the scan is due.
\<close>

theorem shouldScan_remainder_counterexample:
  "LastScanResult (Status (exampleRepo (Some \<lparr>TagCount = 1, ScanTime = 1\<rparr>) maxDuration))
     = Some \<lparr>TagCount = 1, ScanTime = 1\<rparr>
   \<and> \<not> manualTriggerPending (exampleRepo (Some \<lparr>TagCount = 1, ScanTime = 1\<rparr>) maxDuration)
   \<and> Tags exampleDb
       (CanonicalImageName (Status (exampleRepo (Some \<lparr>TagCount = 1, ScanTime = 1\<rparr>) maxDuration)))
     = Inr [''latest'']
   \<and> \<not> sint maxDuration - (0 - 1) < 1000000000
   \<and> shouldScan exampleDb (exampleRepo (Some \<lparr>TagCount = 1, ScanTime = 1\<rparr>) maxDuration) 0
     = (True, maxDuration, None)
   \<and> shouldScan exampleDb (exampleRepo (Some \<lparr>TagCount = 1, ScanTime = 0\<rparr>) minDuration)
       (0 + sint minDuration - 2000000000)
     = (True, minDuration, None)"
  by (simp add: exampleRepo_def exampleSpec_def exampleDb_def Tags_def shouldScan_def
      manualTriggerPending_def ReconcileAnnotationValue_def Time_Sub_def Let_def
      maxDuration_def minDuration_def Second_def word_sless_alt)

subsection \<open>Image references\<close>

lemma genSplit_nonempty: "genSplit sep cur s \<noteq> []"
  by (induction s arbitrary: cur) auto

lemma genSplit_first:
  "sep \<noteq> [] \<Longrightarrow> s = pre @ sep @ rest \<Longrightarrow>
     \<exists>p r. genSplit sep cur s = (rev cur @ p) # r \<and> r \<noteq> [] \<and> prefix (p @ sep) s"
proof (induction s arbitrary: cur pre)
  case Nil
  then show ?case by simp
next
  case (Cons c cs)
  show ?case
  proof (cases "prefix sep (c # cs)")
    case True
    with Cons.prems(1) show ?thesis by (simp add: genSplit_nonempty)
  next
    case False
    with Cons.prems obtain pre' where pre: "pre = c # pre'" "cs = pre' @ sep @ rest"
      by (cases pre) auto
    from Cons.IH [OF Cons.prems(1) pre(2), of "c # cur"]
    obtain p r where "genSplit sep (c # cur) cs = (rev (c # cur) @ p) # r" "r \<noteq> []"
      "prefix (p @ sep) cs"
      by blast
    with False show ?thesis
      by (intro exI [of _ "c # p"] exI [of _ r]) simp
  qed
qed

lemma genSplit_none:
  "sep \<noteq> [] \<Longrightarrow> \<not> sublist sep s \<Longrightarrow> genSplit sep cur s = [rev cur @ s]"
proof (induction s arbitrary: cur)
  case Nil
  then show ?case by simp
next
  case (Cons c cs)
  have "\<not> prefix sep (c # cs)"
    using Cons.prems(2) prefix_imp_sublist by blast
  moreover have "\<not> sublist sep cs"
    using Cons.prems(2) by (auto simp: sublist_Cons_right)
  ultimately show ?case
    using Cons.IH [of "c # cur"] Cons.prems(1) by simp
qed

lemma genSplit_char_none:
  "c \<notin> set s \<Longrightarrow> genSplit [c] cur s = [rev cur @ s]"
  by (induction s arbitrary: cur) auto

lemma genSplit_char_first:
  "c \<notin> set pre \<Longrightarrow> genSplit [c] cur (pre @ c # rest) = (rev cur @ pre) # genSplit [c] [] rest"
  by (induction pre arbitrary: cur) auto

lemma Split_tag:
  "CHR '':'' \<notin> set path \<Longrightarrow> CHR '':'' \<notin> set tag \<Longrightarrow> Split (path @ CHR '':'' # tag) '':'' = [path, tag]"
  by (simp add: Split_def genSplit_char_first genSplit_char_none)

lemma Split_scheme:
  "\<exists>s0 r. Split (scheme @ ''://'' @ rest) ''://'' = s0 # r \<and> r \<noteq> []
      \<and> prefix (s0 @ ''://'') (scheme @ ''://'' @ rest)"
  using genSplit_first [of "''://''" "scheme @ ''://'' @ rest" scheme rest "[]"]
  by (simp add: Split_def)

lemma Split_no_scheme:
  "\<not> sublist ''://'' url \<Longrightarrow> Split url ''://'' = [url]"
  by (simp add: Split_def genSplit_none)

lemma TrimPrefix_no_colon:
  "c \<notin> set url \<Longrightarrow> c \<notin> set (TrimPrefix url p)"
  by (auto simp: TrimPrefix_def dest: in_set_dropD)

lemma TrimPrefix_tagged:
  assumes "c \<notin> set p" "c \<notin> set base"
  shows "\<exists>path. TrimPrefix (base @ c # tag) p = path @ c # tag \<and> c \<notin> set path"
proof (cases "prefix p (base @ c # tag)")
  case False
  with assms show ?thesis by (auto simp: TrimPrefix_def HasPrefix_def)
next
  case True
  have "prefix p base"
    using True assms(1) by (auto simp: prefix_append prefix_Cons)
  then obtain path where "base = p @ path" by (auto simp: prefix_def)
  with True assms show ?thesis
    by (auto simp: TrimPrefix_def HasPrefix_def)
qed

lemma genSplit_char_head:
  "hd (genSplit [c] cur s) = rev cur @ takeWhile (\<lambda>x. x \<noteq> c) s"
  by (induction s arbitrary: cur) auto

lemma Split_colon:
  assumes "CHR '':'' \<notin> set path"
  shows "\<exists>r. Split (path @ CHR '':'' # rest) '':''
            = path # takeWhile (\<lambda>c. c \<noteq> CHR '':'') rest # r"
proof -
  obtain x r where "genSplit '':'' [] rest = x # r"
    using genSplit_nonempty [of "'':''" "[]" rest] by (cases "genSplit '':'' [] rest") auto
  moreover from this have "x = takeWhile (\<lambda>c. c \<noteq> CHR '':'') rest"
    using genSplit_char_head [of "CHR '':''" "[]" rest] by simp
  ultimately show ?thesis
    using assms by (simp add: Split_def genSplit_char_first)
qed

lemma prefix_within:
  assumes "prefix sep (xs @ ys)" and "length sep \<le> length xs"
  shows "prefix sep xs"
  using assms by (auto simp: prefix_append)

lemma genSplit_exact_first:
  assumes "sep \<noteq> []" and "\<not> sublist sep (pre @ butlast sep)"
  shows "genSplit sep cur (pre @ sep @ rest) = (rev cur @ pre) # genSplit sep [] rest"
  using assms(2)
proof (induction pre arbitrary: cur)
  case Nil
  obtain c cs where sep: "sep = c # cs"
    using assms(1) by (cases sep) auto
  then show ?case by simp
next
  case (Cons p ps)
  have split: "(p # ps) @ sep @ rest = ((p # ps) @ butlast sep) @ last sep # rest"
    using assms(1) by simp
  have "\<not> prefix sep ((p # ps) @ sep @ rest)"
  proof
    assume "prefix sep ((p # ps) @ sep @ rest)"
    then have "prefix sep (((p # ps) @ butlast sep) @ last sep # rest)"
      by (simp only: split)
    moreover have "length sep \<le> length ((p # ps) @ butlast sep)"
      by simp
    ultimately have "prefix sep ((p # ps) @ butlast sep)"
      by (rule prefix_within)
    then show False
      using Cons.prems prefix_imp_sublist by blast
  qed
  moreover have "\<not> sublist sep (ps @ butlast sep)"
    using Cons.prems by (auto simp: sublist_Cons_right)
  ultimately show ?case
    using Cons.IH [of "p # cur"] by simp
qed

lemma Split_scheme_exact:
  "\<not> sublist ''://'' (scheme @ '':/'') \<Longrightarrow>
     Split (scheme @ ''://'' @ rest) ''://'' = scheme # genSplit ''://'' [] rest"
  using genSplit_exact_first [of "''://''" scheme "[]" rest] by (simp add: Split_def)


text \<open>
  C4, as amended. \<open>parseImageReference\<close> accepts \<open>docker.io/library/alpine\<close>: it returns
  the reference the parser gives, and no error; so it does for every input without
  \<open>://\<close> that the parser accepts and whose image name, once the registry is trimmed off,
  has no colon. Every input that contains \<open>://\<close> is refused with an error that names the
  text standing before the first \<open>://\<close> of the input, and
  \<open>https://docker.io/library/alpine\<close> is refused with \<open>https://\<close> named. Every input
  without \<open>://\<close> that the parser accepts and whose trimmed image name has a colon is
  refused with an error that names the colon and the text after the first colon up to
  the next one; for a name that ends in \<open>:tag\<close> this is \<open>:tag\<close>, and
  \<open>docker.io/library/alpine:latest\<close> is refused with \<open>:latest\<close> named. An input without
  \<open>://\<close> that the reference parser refuses is refused with the parser's error, tagged
  or not.
\<close>

theorem parseImageReference_validation:
  "(ParseReference ''docker.io/library/alpine'' = Inr ref \<longrightarrow>
      parseImageReference ParseReference ''docker.io/library/alpine'' = Inr ref)
   \<and> (\<not> sublist ''://'' url \<and> ParseReference url = Inr ref
        \<and> CHR '':'' \<notin> set (TrimPrefix url (RegistryStr ref)) \<longrightarrow>
      parseImageReference ParseReference url = Inr ref)
   \<and> (\<exists>s0. parseImageReference ParseReference (scheme @ ''://'' @ rest)
              = Inl (Error (''.spec.image value should not start with URL scheme; remove ''
                            @ quote @ s0 @ ''://'' @ quote))
            \<and> prefix (s0 @ ''://'') (scheme @ ''://'' @ rest))
   \<and> (\<not> sublist ''://'' (scheme @ '':/'') \<longrightarrow>
      parseImageReference ParseReference (scheme @ ''://'' @ rest)
       = Inl (Error (''.spec.image value should not start with URL scheme; remove ''
                     @ quote @ scheme @ ''://'' @ quote)))
   \<and> parseImageReference ParseReference ''https://docker.io/library/alpine''
       = Inl (Error (''.spec.image value should not start with URL scheme; remove ''
                     @ quote @ ''https://'' @ quote))
   \<and> (\<not> sublist ''://'' url \<and> ParseReference url = Inr ref
        \<and> TrimPrefix url (RegistryStr ref) = path @ '':'' @ after
        \<and> CHR '':'' \<notin> set path \<longrightarrow>
      parseImageReference ParseReference url
       = Inl (Error (''.spec.image value should not contain a tag; remove ''
                     @ quote @ '':'' @ takeWhile (\<lambda>c. c \<noteq> CHR '':'') after @ quote)))
   \<and> (\<not> sublist ''://'' url \<and> ParseReference url = Inr ref
        \<and> TrimPrefix url (RegistryStr ref) = path @ '':'' @ tag
        \<and> CHR '':'' \<notin> set path \<and> CHR '':'' \<notin> set tag \<longrightarrow>
      parseImageReference ParseReference url
       = Inl (Error (''.spec.image value should not contain a tag; remove ''
                     @ quote @ '':'' @ tag @ quote)))
   \<and> (ParseReference ''docker.io/library/alpine:latest'' = Inr ref
        \<and> CHR '':'' \<notin> set (RegistryStr ref) \<longrightarrow>
      parseImageReference ParseReference ''docker.io/library/alpine:latest''
       = Inl (Error (''.spec.image value should not contain a tag; remove ''
                     @ quote @ '':latest'' @ quote)))
   \<and> (\<not> sublist ''://'' url \<and> ParseReference url = Inl err \<longrightarrow>
      parseImageReference ParseReference url = Inl err)"
proof -
  have accepted: "parseImageReference ParseReference url = Inr ref"
    if "\<not> sublist ''://'' url" "ParseReference url = Inr ref"
      "CHR '':'' \<notin> set (TrimPrefix url (RegistryStr ref))" for url ref
    using that
    by (simp add: parseImageReference_def Split_no_scheme Let_def)
      (simp add: Split_def genSplit_char_none)
  have plain: "parseImageReference ParseReference ''docker.io/library/alpine'' = Inr ref"
    if parsed: "ParseReference ''docker.io/library/alpine'' = Inr ref"
  proof -
    have "CHR '':'' \<notin> set (TrimPrefix ''docker.io/library/alpine'' (RegistryStr ref))"
      by (rule TrimPrefix_no_colon) simp
    then show ?thesis
      using accepted [of "''docker.io/library/alpine''" ref] parsed
      by (simp add: sublist_Cons_right)
  qed
  have scheme: "\<exists>s0. parseImageReference ParseReference (scheme @ ''://'' @ rest)
              = Inl (Error (''.spec.image value should not start with URL scheme; remove ''
                            @ quote @ s0 @ ''://'' @ quote))
            \<and> prefix (s0 @ ''://'') (scheme @ ''://'' @ rest)"
  proof -
    obtain s0 r where "Split (scheme @ ''://'' @ rest) ''://'' = s0 # r" "r \<noteq> []"
      "prefix (s0 @ ''://'') (scheme @ ''://'' @ rest)"
      using Split_scheme by blast
    then show ?thesis
      by (intro exI [of _ s0]) (simp add: parseImageReference_def)
  qed
  have exact: "parseImageReference ParseReference (scheme @ ''://'' @ rest)
       = Inl (Error (''.spec.image value should not start with URL scheme; remove ''
                     @ quote @ scheme @ ''://'' @ quote))"
    if "\<not> sublist ''://'' (scheme @ '':/'')"
  proof -
    have "Split (scheme @ ''://'' @ rest) ''://'' = scheme # genSplit ''://'' [] rest"
      using that by (rule Split_scheme_exact)
    moreover have "genSplit ''://'' [] rest \<noteq> []"
      by (rule genSplit_nonempty)
    ultimately show ?thesis
      by (simp add: parseImageReference_def)
  qed
  have https: "parseImageReference ParseReference ''https://docker.io/library/alpine''
       = Inl (Error (''.spec.image value should not start with URL scheme; remove ''
                     @ quote @ ''https://'' @ quote))"
    by (simp add: parseImageReference_def Split_def)
  have coloned: "parseImageReference ParseReference url
       = Inl (Error (''.spec.image value should not contain a tag; remove ''
                     @ quote @ '':'' @ takeWhile (\<lambda>c. c \<noteq> CHR '':'') after @ quote))"
    if no_scheme: "\<not> sublist ''://'' url" and parsed: "ParseReference url = Inr ref"
      and name: "TrimPrefix url (RegistryStr ref) = path @ '':'' @ after"
      and path: "CHR '':'' \<notin> set path" for url ref path after
  proof -
    obtain r where "Split (path @ CHR '':'' # after) '':''
        = path # takeWhile (\<lambda>c. c \<noteq> CHR '':'') after # r"
      using Split_colon [OF path] by blast
    then show ?thesis
      using no_scheme parsed name
      by (simp add: parseImageReference_def Split_no_scheme Let_def)
  qed
  have tagged: "parseImageReference ParseReference url
       = Inl (Error (''.spec.image value should not contain a tag; remove ''
                     @ quote @ '':'' @ tag @ quote))"
    if "\<not> sublist ''://'' url" "ParseReference url = Inr ref"
      "TrimPrefix url (RegistryStr ref) = path @ '':'' @ tag"
      "CHR '':'' \<notin> set path" "CHR '':'' \<notin> set tag" for url ref path tag
  proof -
    have "takeWhile (\<lambda>c. c \<noteq> CHR '':'') tag = tag"
      using that(5) by (auto simp: takeWhile_eq_all_conv)
    then show ?thesis
      using coloned [OF that(1-4)] by simp
  qed
  have latest: "parseImageReference ParseReference ''docker.io/library/alpine:latest''
       = Inl (Error (''.spec.image value should not contain a tag; remove ''
                     @ quote @ '':latest'' @ quote))"
    if parsed: "ParseReference ''docker.io/library/alpine:latest'' = Inr ref"
      and no_port: "CHR '':'' \<notin> set (RegistryStr ref)"
  proof -
    obtain path where
      "TrimPrefix (''docker.io/library/alpine'' @ CHR '':'' # ''latest'') (RegistryStr ref)
         = path @ CHR '':'' # ''latest''" "CHR '':'' \<notin> set path"
      using TrimPrefix_tagged [OF no_port, of "''docker.io/library/alpine''" "''latest''"]
      by auto
    then show ?thesis
      using tagged [of "''docker.io/library/alpine:latest''" ref path "''latest''"] parsed
      by (simp add: sublist_Cons_right)
  qed
  have refused: "parseImageReference ParseReference url = Inl err"
    if "\<not> sublist ''://'' url" "ParseReference url = Inl err"
    using that by (simp add: parseImageReference_def Split_no_scheme)
  show ?thesis
    using plain accepted scheme exact https coloned tagged latest refused by blast
qed

theorem parseImageReference_validation_witness:
  "parseImageReference exampleParseReference ''docker.io/library/alpine'' = Inr alpineReference
   \<and> parseImageReference exampleParseReference ''docker.io/library/alpine:latest''
       = Inl (Error (''.spec.image value should not contain a tag; remove ''
                     @ quote @ '':latest'' @ quote))
   \<and> parseImageReference exampleParseReference ''docker.io/library/alpine:3.12@sha256:abcd''
       = Inl (Error (''.spec.image value should not contain a tag; remove ''
                     @ quote @ '':3.12@sha256'' @ quote))
   \<and> parseImageReference exampleParseReference ''oci://docker.io/library/alpine''
       = Inl (Error (''.spec.image value should not start with URL scheme; remove ''
                     @ quote @ ''oci://'' @ quote))
   \<and> parseImageReference exampleParseReference ''docker.io/library/Alpine:latest''
       = Inl (Error ''could not parse reference: docker.io/library/Alpine:latest'')"
proof -
  have p1: "exampleParseReference ''docker.io/library/alpine'' = Inr alpineReference"
    and p2: "exampleParseReference ''docker.io/library/alpine:latest'' = Inr alpineReference"
    and p3: "exampleParseReference ''docker.io/library/Alpine:latest''
              = Inl (Error ''could not parse reference: docker.io/library/Alpine:latest'')"
    and p4: "exampleParseReference ''docker.io/library/alpine:3.12@sha256:abcd''
              = Inr alpineReference"
    by (simp_all add: exampleParseReference_def HasPrefix_def)
  have c: "CHR '':'' \<notin> set (RegistryStr alpineReference)"
    by (simp add: alpineReference_def)
  have n: "\<not> sublist ''://'' ''docker.io/library/Alpine:latest''"
    "\<not> sublist ''://'' ''docker.io/library/alpine:3.12@sha256:abcd''"
    "\<not> sublist ''://'' ''oci:/''"
    by (simp_all add: sublist_Cons_right)
  have t: "TrimPrefix ''docker.io/library/alpine:3.12@sha256:abcd'' (RegistryStr alpineReference)
      = ''docker.io/library/alpine'' @ '':'' @ ''3.12@sha256:abcd''"
    "CHR '':'' \<notin> set ''docker.io/library/alpine''"
    by (simp_all add: TrimPrefix_def HasPrefix_def alpineReference_def)
  note v1 = parseImageReference_validation
      [of exampleParseReference alpineReference "''docker.io/library/Alpine:latest''"
          "''oci''" "''docker.io/library/alpine''" "[]" "[]" "[]"
          "Error ''could not parse reference: docker.io/library/Alpine:latest''"]
  note v2 = parseImageReference_validation
      [of exampleParseReference alpineReference "''docker.io/library/alpine:3.12@sha256:abcd''"
          "[]" "[]" "''docker.io/library/alpine''" "''3.12@sha256:abcd''" "[]"
          "Error []"]
  have digest: "parseImageReference exampleParseReference
        ''docker.io/library/alpine:3.12@sha256:abcd''
       = Inl (Error (''.spec.image value should not contain a tag; remove ''
                     @ quote @ '':3.12@sha256'' @ quote))"
    using v2 [THEN conjunct2, THEN conjunct2, THEN conjunct2, THEN conjunct2, THEN conjunct2,
        THEN conjunct1] n(2) p4 t
    by simp
  have oci: "parseImageReference exampleParseReference ''oci://docker.io/library/alpine''
       = Inl (Error (''.spec.image value should not start with URL scheme; remove ''
                     @ quote @ ''oci://'' @ quote))"
    using v1 [THEN conjunct2, THEN conjunct2, THEN conjunct2, THEN conjunct1] n(3) by simp
  show ?thesis
    using v1 [THEN conjunct1]
      v1 [THEN conjunct2, THEN conjunct2, THEN conjunct2, THEN conjunct2, THEN conjunct2,
        THEN conjunct2, THEN conjunct2, THEN conjunct1]
      v1 [THEN conjunct2, THEN conjunct2, THEN conjunct2, THEN conjunct2, THEN conjunct2,
        THEN conjunct2, THEN conjunct2, THEN conjunct2]
      p1 p2 p3 c n(1) digest oci
    by simp
qed

text \<open>
  The claim as first stated has every input with a tag suffix refused by an error that
  names the tag. The reference is parsed before the tag is looked for: a tagged input
  that the parser refuses, as go-containerregistry refuses a repository with a capital
  letter, comes back with the parser's error, in which the code names nothing.
\<close>

theorem parseImageReference_validation_counterexample:
  "exampleParseReference ''docker.io/library/Alpine:latest''
     = Inl (Error ''could not parse reference: docker.io/library/Alpine:latest'')
   \<and> parseImageReference exampleParseReference ''docker.io/library/Alpine:latest''
     = Inl (Error ''could not parse reference: docker.io/library/Alpine:latest'')
   \<and> parseImageReference exampleParseReference ''docker.io/library/Alpine:latest''
     \<noteq> Inl (Error (''.spec.image value should not contain a tag; remove ''
                     @ quote @ '':latest'' @ quote))"
  by (simp add: parseImageReference_def Split_def exampleParseReference_def HasPrefix_def)

subsection \<open>Registry hosts of credentials\<close>

text \<open>
  What \<open>getURLHost\<close> does with a key that is not a bare scheme, by what the URL parser
  makes of the text it is given: the key itself when it starts with \<open>http://\<close> or
  \<open>https://\<close>, and \<open>https://\<close>, the key and a slash otherwise.
\<close>

lemma getURLHost_host:
  assumes "urlStr \<noteq> ''http://''" "urlStr \<noteq> ''https://''"
    and "parse (if \<not> HasPrefix urlStr ''http://'' \<and> \<not> HasPrefix urlStr ''https://''
                then ''https://'' @ urlStr @ ''/'' else urlStr) = Inr u"
    and "Host u \<noteq> []"
  shows "getURLHost parse urlStr = Inr (Host u)"
  using assms by (simp add: getURLHost_def Let_def)

lemma getURLHost_error:
  assumes "urlStr \<noteq> ''http://''" "urlStr \<noteq> ''https://''"
    and "parse (if \<not> HasPrefix urlStr ''http://'' \<and> \<not> HasPrefix urlStr ''https://''
                then ''https://'' @ urlStr @ ''/'' else urlStr) = Inl err"
  shows "getURLHost parse urlStr = Inl err"
  using assms by (simp add: getURLHost_def Let_def)

lemma unschemed_not_bare:
  "\<not> HasPrefix urlStr ''http://'' \<Longrightarrow> urlStr \<noteq> ''http://''"
  "\<not> HasPrefix urlStr ''https://'' \<Longrightarrow> urlStr \<noteq> ''https://''"
  by (auto simp: HasPrefix_def)


lemma getURLHost_no_host_msg:
  assumes "urlStr \<noteq> ''http://''" "urlStr \<noteq> ''https://''"
    and "parse (if \<not> HasPrefix urlStr ''http://'' \<and> \<not> HasPrefix urlStr ''https://''
                then ''https://'' @ urlStr @ ''/'' else urlStr) = Inr u"
    and "Host u = []"
  shows "\<exists>rest. getURLHost parse urlStr
           = Inl (Error (''Invalid registry auth key: ''
                @ (if \<not> HasPrefix urlStr ''http://'' \<and> \<not> HasPrefix urlStr ''https://''
                   then ''https://'' @ urlStr @ ''/'' else urlStr) @ rest))"
  using assms by (simp add: getURLHost_def Let_def)

text \<open>
  C5. \<open>getURLHost\<close> brings a registry key of a credentials document down to its host,
  whatever the URL parser. The bare schemes \<open>http://\<close> and \<open>https://\<close> are errors. A
  key that starts with \<open>http://\<close> or \<open>https://\<close> goes to the parser as it is, and any
  other key goes as \<open>https://\<close>, the key and a slash; the result is the host the parser
  finds in that text when it is not empty, the parser's own error when it refuses the
  text, and an error that names the text when the host is empty. In particular the keys
  \<open>https://index.docker.io/v2/\<close>, \<open>index.docker.io\<close> and \<open>http://index.docker.io\<close>
  all give \<open>index.docker.io\<close> with a parser that finds that host in
  \<open>https://index.docker.io/v2/\<close>, \<open>https://index.docker.io/\<close> and
  \<open>http://index.docker.io\<close>, as \<open>url.Parse\<close> does.
\<close>

theorem getURLHost_normalises:
  "getURLHost parse ''http://'' = Inl (Error ''Empty url'')
   \<and> getURLHost parse ''https://'' = Inl (Error ''Empty url'')
   \<and> ((HasPrefix urlStr ''http://'' \<or> HasPrefix urlStr ''https://'')
        \<and> urlStr \<noteq> ''http://'' \<and> urlStr \<noteq> ''https://''
        \<and> parse urlStr = Inr u \<and> Host u \<noteq> [] \<longrightarrow>
        getURLHost parse urlStr = Inr (Host u))
   \<and> (\<not> HasPrefix urlStr ''http://'' \<and> \<not> HasPrefix urlStr ''https://''
        \<and> parse (''https://'' @ urlStr @ ''/'') = Inr u \<and> Host u \<noteq> [] \<longrightarrow>
        getURLHost parse urlStr = Inr (Host u))
   \<and> ((HasPrefix urlStr ''http://'' \<or> HasPrefix urlStr ''https://'')
        \<and> urlStr \<noteq> ''http://'' \<and> urlStr \<noteq> ''https://''
        \<and> parse urlStr = Inl err \<longrightarrow>
        getURLHost parse urlStr = Inl err)
   \<and> (\<not> HasPrefix urlStr ''http://'' \<and> \<not> HasPrefix urlStr ''https://''
        \<and> parse (''https://'' @ urlStr @ ''/'') = Inl err \<longrightarrow>
        getURLHost parse urlStr = Inl err)
   \<and> ((HasPrefix urlStr ''http://'' \<or> HasPrefix urlStr ''https://'')
        \<and> urlStr \<noteq> ''http://'' \<and> urlStr \<noteq> ''https://''
        \<and> parse urlStr = Inr u \<and> Host u = [] \<longrightarrow>
        (\<exists>rest. getURLHost parse urlStr
           = Inl (Error (''Invalid registry auth key: '' @ urlStr @ rest))))
   \<and> (\<not> HasPrefix urlStr ''http://'' \<and> \<not> HasPrefix urlStr ''https://''
        \<and> parse (''https://'' @ urlStr @ ''/'') = Inr u \<and> Host u = [] \<longrightarrow>
        (\<exists>rest. getURLHost parse urlStr
           = Inl (Error (''Invalid registry auth key: '' @ ''https://'' @ urlStr @ ''/'' @ rest))))
   \<and> (parse ''https://index.docker.io/v2/'' = Inr u1 \<and> Host u1 = ''index.docker.io'' \<longrightarrow>
        getURLHost parse ''https://index.docker.io/v2/'' = Inr ''index.docker.io'')
   \<and> (parse ''https://index.docker.io/'' = Inr u2 \<and> Host u2 = ''index.docker.io'' \<longrightarrow>
        getURLHost parse ''index.docker.io'' = Inr ''index.docker.io'')
   \<and> (parse ''http://index.docker.io'' = Inr u3 \<and> Host u3 = ''index.docker.io'' \<longrightarrow>
        getURLHost parse ''http://index.docker.io'' = Inr ''index.docker.io'')"
proof -
  have bare: "getURLHost parse ''http://'' = Inl (Error ''Empty url'')"
    "getURLHost parse ''https://'' = Inl (Error ''Empty url'')"
    by (simp_all add: getURLHost_def)
  have sent_schemed:
    "(if \<not> HasPrefix urlStr ''http://'' \<and> \<not> HasPrefix urlStr ''https://''
      then ''https://'' @ urlStr @ ''/'' else urlStr) = urlStr"
    if "HasPrefix urlStr ''http://'' \<or> HasPrefix urlStr ''https://''"
    using that by (cases "HasPrefix urlStr ''http://''") simp_all
  have sent_unschemed:
    "(if \<not> HasPrefix urlStr ''http://'' \<and> \<not> HasPrefix urlStr ''https://''
      then ''https://'' @ urlStr @ ''/'' else urlStr) = ''https://'' @ urlStr @ ''/''"
    if "\<not> HasPrefix urlStr ''http://''" "\<not> HasPrefix urlStr ''https://''"
    using that by simp
  have host_schemed: "(HasPrefix urlStr ''http://'' \<or> HasPrefix urlStr ''https://'')
        \<and> urlStr \<noteq> ''http://'' \<and> urlStr \<noteq> ''https://''
        \<and> parse urlStr = Inr u \<and> Host u \<noteq> [] \<longrightarrow>
        getURLHost parse urlStr = Inr (Host u)"
  proof (intro impI, elim conjE)
    assume a: "HasPrefix urlStr ''http://'' \<or> HasPrefix urlStr ''https://''"
      "urlStr \<noteq> ''http://''" "urlStr \<noteq> ''https://''" "parse urlStr = Inr u" "Host u \<noteq> []"
    show "getURLHost parse urlStr = Inr (Host u)"
      by (rule getURLHost_host [where parse = parse and urlStr = urlStr and u = u, OF a(2) a(3) _ a(5)]) (simp only: sent_schemed [OF a(1)] a(4))
  qed
  have host_unschemed: "\<not> HasPrefix urlStr ''http://'' \<and> \<not> HasPrefix urlStr ''https://''
        \<and> parse (''https://'' @ urlStr @ ''/'') = Inr u \<and> Host u \<noteq> [] \<longrightarrow>
        getURLHost parse urlStr = Inr (Host u)"
  proof (intro impI, elim conjE)
    assume a: "\<not> HasPrefix urlStr ''http://''" "\<not> HasPrefix urlStr ''https://''"
      "parse (''https://'' @ urlStr @ ''/'') = Inr u" "Host u \<noteq> []"
    show "getURLHost parse urlStr = Inr (Host u)"
      by (rule getURLHost_host [where parse = parse and urlStr = urlStr and u = u, OF unschemed_not_bare(1) [OF a(1)] unschemed_not_bare(2) [OF a(2)] _ a(4)])
         (simp only: sent_unschemed [OF a(1) a(2)] a(3))
  qed
  have error_schemed: "(HasPrefix urlStr ''http://'' \<or> HasPrefix urlStr ''https://'')
        \<and> urlStr \<noteq> ''http://'' \<and> urlStr \<noteq> ''https://''
        \<and> parse urlStr = Inl err \<longrightarrow>
        getURLHost parse urlStr = Inl err"
  proof (intro impI, elim conjE)
    assume a: "HasPrefix urlStr ''http://'' \<or> HasPrefix urlStr ''https://''"
      "urlStr \<noteq> ''http://''" "urlStr \<noteq> ''https://''" "parse urlStr = Inl err"
    show "getURLHost parse urlStr = Inl err"
      by (rule getURLHost_error [where parse = parse and urlStr = urlStr and err = err, OF a(2) a(3)]) (simp only: sent_schemed [OF a(1)] a(4))
  qed
  have error_unschemed: "\<not> HasPrefix urlStr ''http://'' \<and> \<not> HasPrefix urlStr ''https://''
        \<and> parse (''https://'' @ urlStr @ ''/'') = Inl err \<longrightarrow>
        getURLHost parse urlStr = Inl err"
  proof (intro impI, elim conjE)
    assume a: "\<not> HasPrefix urlStr ''http://''" "\<not> HasPrefix urlStr ''https://''"
      "parse (''https://'' @ urlStr @ ''/'') = Inl err"
    show "getURLHost parse urlStr = Inl err"
      by (rule getURLHost_error [where parse = parse and urlStr = urlStr and err = err, OF unschemed_not_bare(1) [OF a(1)] unschemed_not_bare(2) [OF a(2)]])
         (simp only: sent_unschemed [OF a(1) a(2)] a(3))
  qed
  have no_host_schemed: "(HasPrefix urlStr ''http://'' \<or> HasPrefix urlStr ''https://'')
        \<and> urlStr \<noteq> ''http://'' \<and> urlStr \<noteq> ''https://''
        \<and> parse urlStr = Inr u \<and> Host u = [] \<longrightarrow>
        (\<exists>rest. getURLHost parse urlStr
           = Inl (Error (''Invalid registry auth key: '' @ urlStr @ rest)))"
  proof (intro impI, elim conjE)
    assume a: "HasPrefix urlStr ''http://'' \<or> HasPrefix urlStr ''https://''"
      "urlStr \<noteq> ''http://''" "urlStr \<noteq> ''https://''" "parse urlStr = Inr u" "Host u = []"
    have "parse (if \<not> HasPrefix urlStr ''http://'' \<and> \<not> HasPrefix urlStr ''https://''
                then ''https://'' @ urlStr @ ''/'' else urlStr) = Inr u"
      by (simp only: sent_schemed [OF a(1)] a(4))
    from getURLHost_no_host_msg [where parse = parse and urlStr = urlStr and u = u, OF a(2) a(3) this a(5)]
    show "\<exists>rest. getURLHost parse urlStr
           = Inl (Error (''Invalid registry auth key: '' @ urlStr @ rest))"
      by (simp only: sent_schemed [OF a(1)])
  qed
  have no_host_unschemed: "\<not> HasPrefix urlStr ''http://'' \<and> \<not> HasPrefix urlStr ''https://''
        \<and> parse (''https://'' @ urlStr @ ''/'') = Inr u \<and> Host u = [] \<longrightarrow>
        (\<exists>rest. getURLHost parse urlStr
           = Inl (Error (''Invalid registry auth key: '' @ ''https://'' @ urlStr @ ''/'' @ rest)))"
  proof (intro impI, elim conjE)
    assume a: "\<not> HasPrefix urlStr ''http://''" "\<not> HasPrefix urlStr ''https://''"
      "parse (''https://'' @ urlStr @ ''/'') = Inr u" "Host u = []"
    have "parse (if \<not> HasPrefix urlStr ''http://'' \<and> \<not> HasPrefix urlStr ''https://''
                then ''https://'' @ urlStr @ ''/'' else urlStr) = Inr u"
      by (simp only: sent_unschemed [OF a(1) a(2)] a(3))
    from getURLHost_no_host_msg [where parse = parse and urlStr = urlStr and u = u, OF unschemed_not_bare(1) [OF a(1)]
        unschemed_not_bare(2) [OF a(2)] this a(4)]
    show "\<exists>rest. getURLHost parse urlStr
           = Inl (Error (''Invalid registry auth key: '' @ ''https://'' @ urlStr @ ''/'' @ rest))"
      by (simp only: sent_unschemed [OF a(1) a(2)] append_assoc)
  qed
  have docker:
    "parse ''https://index.docker.io/v2/'' = Inr u1 \<and> Host u1 = ''index.docker.io'' \<longrightarrow>
        getURLHost parse ''https://index.docker.io/v2/'' = Inr ''index.docker.io''"
    "parse ''https://index.docker.io/'' = Inr u2 \<and> Host u2 = ''index.docker.io'' \<longrightarrow>
        getURLHost parse ''index.docker.io'' = Inr ''index.docker.io''"
    "parse ''http://index.docker.io'' = Inr u3 \<and> Host u3 = ''index.docker.io'' \<longrightarrow>
        getURLHost parse ''http://index.docker.io'' = Inr ''index.docker.io''"
    by (simp_all add: getURLHost_def HasPrefix_def)
  show ?thesis
    by (intro conjI bare host_schemed host_unschemed error_schemed error_unschemed
        no_host_schemed no_host_unschemed docker)
qed


theorem getURLHost_normalises_witness:
  "getURLHost simple_url_Parse ''https://index.docker.io/v2/'' = Inr ''index.docker.io''
   \<and> getURLHost simple_url_Parse ''index.docker.io'' = Inr ''index.docker.io''
   \<and> getURLHost simple_url_Parse ''http://index.docker.io'' = Inr ''index.docker.io''
   \<and> getURLHost simple_url_Parse ''http://'' = Inl (Error ''Empty url'')
   \<and> getURLHost simple_url_Parse ''https://'' = Inl (Error ''Empty url'')
   \<and> getURLHost simple_url_Parse ''ghcr.io'' = Inr ''ghcr.io''
   \<and> getURLHost simple_url_Parse ''http://localhost:5000/v1/'' = Inr ''localhost:5000''
   \<and> (\<exists>rest. getURLHost simple_url_Parse ''https:///v2/''
         = Inl (Error (''Invalid registry auth key: https:///v2/'' @ rest)))
   \<and> (\<exists>rest. getURLHost simple_url_Parse ''''
         = Inl (Error (''Invalid registry auth key: https:///'' @ rest)))
   \<and> getURLHost (\<lambda>s. Inl (Error ''invalid URL'')) ''ghcr.io'' = Inl (Error ''invalid URL'')
   \<and> getURLHost (\<lambda>s. Inl (Error ''invalid URL'')) ''http://ghcr.io''
       = Inl (Error ''invalid URL'')"
proof -
  let ?docker = "\<lparr>Host = ''index.docker.io''\<rparr>"
  let ?fails = "\<lambda>s :: string. Inl (Error ''invalid URL'') :: error + URL"
  have p: "simple_url_Parse ''https://index.docker.io/v2/'' = Inr ?docker"
    "simple_url_Parse ''https://index.docker.io/'' = Inr ?docker"
    "simple_url_Parse ''http://index.docker.io'' = Inr ?docker"
    "simple_url_Parse ''https://ghcr.io/'' = Inr \<lparr>Host = ''ghcr.io''\<rparr>"
    "simple_url_Parse ''http://localhost:5000/v1/'' = Inr \<lparr>Host = ''localhost:5000''\<rparr>"
    "simple_url_Parse ''https:///v2/'' = Inr \<lparr>Host = []\<rparr>"
    "simple_url_Parse ''https:///'' = Inr \<lparr>Host = []\<rparr>"
    by (simp_all add: simple_url_Parse_def Split_def)
  note ghcr = getURLHost_normalises [of simple_url_Parse "''ghcr.io''"
      "\<lparr>Host = ''ghcr.io''\<rparr>" "Error ''invalid URL''" ?docker ?docker ?docker]
  note localhost = getURLHost_normalises [of simple_url_Parse "''http://localhost:5000/v1/''"
      "\<lparr>Host = ''localhost:5000''\<rparr>" "Error ''invalid URL''" ?docker ?docker ?docker]
  note hostless = getURLHost_normalises [of simple_url_Parse "''https:///v2/''"
      "\<lparr>Host = []\<rparr>" "Error ''invalid URL''" ?docker ?docker ?docker]
  note empty = getURLHost_normalises [of simple_url_Parse "[]"
      "\<lparr>Host = []\<rparr>" "Error ''invalid URL''" ?docker ?docker ?docker]
  note refused = getURLHost_normalises [of ?fails "''ghcr.io''"
      "\<lparr>Host = []\<rparr>" "Error ''invalid URL''" ?docker ?docker ?docker]
  note refused_schemed = getURLHost_normalises [of ?fails "''http://ghcr.io''"
      "\<lparr>Host = []\<rparr>" "Error ''invalid URL''" ?docker ?docker ?docker]
  note c3 = conjunct2 [THEN conjunct2, THEN conjunct1]
  note c4 = conjunct2 [THEN conjunct2, THEN conjunct2, THEN conjunct1]
  note c5 = conjunct2 [THEN conjunct2, THEN conjunct2, THEN conjunct2, THEN conjunct1]
  note c6 = conjunct2 [THEN conjunct2, THEN conjunct2, THEN conjunct2, THEN conjunct2,
      THEN conjunct1]
  note c7 = conjunct2 [THEN conjunct2, THEN conjunct2, THEN conjunct2, THEN conjunct2,
      THEN conjunct2, THEN conjunct1]
  note c8 = conjunct2 [THEN conjunct2, THEN conjunct2, THEN conjunct2, THEN conjunct2,
      THEN conjunct2, THEN conjunct2, THEN conjunct1]
  note c9 = conjunct2 [THEN conjunct2, THEN conjunct2, THEN conjunct2, THEN conjunct2,
      THEN conjunct2, THEN conjunct2, THEN conjunct2, THEN conjunct1]
  note c10 = conjunct2 [THEN conjunct2, THEN conjunct2, THEN conjunct2, THEN conjunct2,
      THEN conjunct2, THEN conjunct2, THEN conjunct2, THEN conjunct2, THEN conjunct1]
  note c11 = conjunct2 [THEN conjunct2, THEN conjunct2, THEN conjunct2, THEN conjunct2,
      THEN conjunct2, THEN conjunct2, THEN conjunct2, THEN conjunct2, THEN conjunct2]
  have d1: "getURLHost simple_url_Parse ''https://index.docker.io/v2/'' = Inr ''index.docker.io''"
    using ghcr [THEN c9] p(1) by simp
  have d2: "getURLHost simple_url_Parse ''index.docker.io'' = Inr ''index.docker.io''"
    using ghcr [THEN c10] p(2) by simp
  have d3: "getURLHost simple_url_Parse ''http://index.docker.io'' = Inr ''index.docker.io''"
    using ghcr [THEN c11] p(3) by simp
  have b1: "getURLHost simple_url_Parse ''http://'' = Inl (Error ''Empty url'')"
    using ghcr [THEN conjunct1] .
  have b2: "getURLHost simple_url_Parse ''https://'' = Inl (Error ''Empty url'')"
    using ghcr [THEN conjunct2, THEN conjunct1] .
  have g1: "getURLHost simple_url_Parse ''ghcr.io'' = Inr ''ghcr.io''"
    using ghcr [THEN c4] p(4) by (simp add: HasPrefix_def)
  have g2: "getURLHost simple_url_Parse ''http://localhost:5000/v1/'' = Inr ''localhost:5000''"
    using localhost [THEN c3] p(5) by (simp add: HasPrefix_def)
  have g3: "\<exists>rest. getURLHost simple_url_Parse ''https:///v2/''
         = Inl (Error (''Invalid registry auth key: https:///v2/'' @ rest))"
    using hostless [THEN c7] p(6) by (simp add: HasPrefix_def)
  have g4: "\<exists>rest. getURLHost simple_url_Parse ''''
         = Inl (Error (''Invalid registry auth key: https:///'' @ rest))"
    using empty [THEN c8] p(7) by (simp add: HasPrefix_def)
  have g5: "getURLHost ?fails ''ghcr.io'' = Inl (Error ''invalid URL'')"
    using refused [THEN c6] by (simp add: HasPrefix_def)
  have g6: "getURLHost ?fails ''http://ghcr.io'' = Inl (Error ''invalid URL'')"
    using refused_schemed [THEN c5] by (simp add: HasPrefix_def)
  show ?thesis
    by (intro conjI d1 d2 d3 b1 b2 g1 g2 g3 g4 g5 g6)
qed

subsection \<open>The transport of a TLS secret\<close>




subsection \<open>The registry scan\<close>

lemma exclusionLoop_all_compile:
  "\<forall>regex\<in>set patterns. \<exists>r. regexp_Compile w regex = Inr r \<Longrightarrow>
     exclusionLoop (regexp_Compile w) patterns tags filteredTags
       = Inr (filteredTags @ spec_filteredTags w patterns tags)"
proof (induction patterns arbitrary: filteredTags)
  case Nil
  then show ?case by (simp add: spec_filteredTags_def)
next
  case (Cons regex rest)
  then obtain r where r: "regexp_Compile w regex = Inr r" by auto
  have "exclusionLoop (regexp_Compile w) rest tags (filteredTags @ filter (\<lambda>tag. \<not> r tag) tags)
      = Inr ((filteredTags @ filter (\<lambda>tag. \<not> r tag) tags) @ spec_filteredTags w rest tags)"
    using Cons.prems by (intro Cons.IH) simp
  then show ?case
    using r by (simp add: spec_filteredTags_def matchesPattern_def)
qed

lemma count_list_filter:
  "count_list (filter P xs) x = (if P x then count_list xs x else 0)"
  by (induction xs) auto

lemma count_list_append: "count_list (xs @ ys) x = count_list xs x + count_list ys x"
  by (induction xs) auto

lemma count_spec_filteredTags:
  "count_list (spec_filteredTags w patterns tags) tag
     = count_list tags tag * length (filter (\<lambda>regex. \<not> matchesPattern w regex tag) patterns)"
  unfolding spec_filteredTags_def
  by (induction patterns) (simp_all add: count_list_filter count_list_append)

lemma scan_listed:
  assumes "scan_options w imageRepo ref = Inr options"
    and "remote_List w (ContextString ref) options = Inr tags"
    and "\<forall>regex\<in>set (effectiveExclusionList imageRepo). \<exists>r. regexp_Compile w regex = Inr r"
  shows "snd (snd (scan w db imageRepo ref))
          = snd (SetTags db (ContextString ref)
                   (spec_filteredTags w (effectiveExclusionList imageRepo) tags))"
    and "fst (scan w db imageRepo ref)
          = (case fst (SetTags db (ContextString ref)
                   (spec_filteredTags w (effectiveExclusionList imageRepo) tags)) of
               None \<Rightarrow> None
             | Some err \<Rightarrow> Some (Wrapped (''failed to set tags for ''
                                        @ quoted (ContextString ref) @ '': '') err))"
    and "ExclusionList (Spec (fst (snd (scan w db imageRepo ref))))
          = effectiveExclusionList imageRepo"
  using assms exclusionLoop_all_compile [OF assms(3), of tags "[]"]
  by (auto simp: scan_def effectiveExclusionList_def Let_def SetImageRepositoryReadiness_def
      MarkCondition_def split: prod.splits option.splits)

lemma cosignMatch_tags:
  "\<not> cosignMatch ''v1.0.0''" "cosignMatch ''v1.0.0.sig''" "\<not> cosignMatch ''latest''"
  by (simp_all add: cosignMatch_def suffix_to_prefix)

text \<open>
  C6. Let the scan reach the registry and the listing succeed, every pattern of the
  exclusion list compiling. An empty exclusion list is defaulted to the single pattern
  \<open>CosignObjectRegex\<close>. \<open>SetTags\<close> is called once, with the result of applying each pattern
  on its own to the full listing (keeping the tags it does not match) and putting the
  results one after the other; when the write succeeds the scan succeeds and that is what
  the store then holds. A tag therefore appears in the result once for every pattern it
  survives and every time it is listed. With an empty exclusion list and the listing
  \<open>v1.0.0\<close>, \<open>v1.0.0.sig\<close>, \<open>latest\<close> the result is \<open>v1.0.0\<close>, \<open>latest\<close>.
\<close>

theorem scan_exclusion_filter:
  assumes "scan_options w imageRepo ref = Inr options"
    and "remote_List w (ContextString ref) options = Inr tags"
    and "\<forall>regex\<in>set (effectiveExclusionList imageRepo). \<exists>r. regexp_Compile w regex = Inr r"
  shows "(ExclusionList (Spec imageRepo) = [] \<longrightarrow>
            ExclusionList (Spec (fst (snd (scan w db imageRepo ref)))) = [CosignObjectRegex]
            \<and> effectiveExclusionList imageRepo = [CosignObjectRegex])
       \<and> db_setCalls (snd (snd (scan w db imageRepo ref)))
          = db_setCalls db
            @ [(ContextString ref, spec_filteredTags w (effectiveExclusionList imageRepo) tags)]
       \<and> (db_writeError db (ContextString ref) = None \<longrightarrow>
            fst (scan w db imageRepo ref) = None
            \<and> Tags (snd (snd (scan w db imageRepo ref))) (ContextString ref)
               = (case db_readError db (ContextString ref) of
                    Some err \<Rightarrow> Inl err
                  | None \<Rightarrow> Inr (spec_filteredTags w (effectiveExclusionList imageRepo) tags)))
       \<and> count_list (spec_filteredTags w (effectiveExclusionList imageRepo) tags) tag
          = count_list tags tag
            * length (filter (\<lambda>regex. \<not> matchesPattern w regex tag)
                        (effectiveExclusionList imageRepo))
       \<and> (ExclusionList (Spec imageRepo) = []
            \<and> tags = [''v1.0.0'', ''v1.0.0.sig'', ''latest'']
            \<and> regexp_Compile w CosignObjectRegex = Inr cosignMatch \<longrightarrow>
            spec_filteredTags w (effectiveExclusionList imageRepo) tags
              = [''v1.0.0'', ''latest''])"
proof -
  let ?stored = "spec_filteredTags w (effectiveExclusionList imageRepo) tags"
  have store: "snd (snd (scan w db imageRepo ref)) = snd (SetTags db (ContextString ref) ?stored)"
    and err: "fst (scan w db imageRepo ref)
          = (case fst (SetTags db (ContextString ref) ?stored) of
               None \<Rightarrow> None
             | Some err \<Rightarrow> Some (Wrapped (''failed to set tags for ''
                                        @ quoted (ContextString ref) @ '': '') err))"
    and excl: "ExclusionList (Spec (fst (snd (scan w db imageRepo ref))))
          = effectiveExclusionList imageRepo"
    using assms by (rule scan_listed)+
  have default: "effectiveExclusionList imageRepo = [CosignObjectRegex]"
    if "ExclusionList (Spec imageRepo) = []"
    using that by (simp add: effectiveExclusionList_def)
  have defaulted: "ExclusionList (Spec (fst (snd (scan w db imageRepo ref)))) = [CosignObjectRegex]"
    if "ExclusionList (Spec imageRepo) = []"
    using that excl default by simp
  have calls: "db_setCalls (snd (snd (scan w db imageRepo ref)))
          = db_setCalls db @ [(ContextString ref, ?stored)]"
    unfolding store by (simp add: SetTags_def split: option.splits)
  have written: "fst (scan w db imageRepo ref) = None
      \<and> Tags (snd (snd (scan w db imageRepo ref))) (ContextString ref)
         = (case db_readError db (ContextString ref) of
              Some err \<Rightarrow> Inl err | None \<Rightarrow> Inr ?stored)"
    if "db_writeError db (ContextString ref) = None"
    unfolding store err using that by (simp add: SetTags_def Tags_def split: option.splits)
  have count: "count_list ?stored tag
          = count_list tags tag
            * length (filter (\<lambda>regex. \<not> matchesPattern w regex tag)
                        (effectiveExclusionList imageRepo))"
    by (rule count_spec_filteredTags)
  have signature: "?stored = [''v1.0.0'', ''latest'']"
    if "ExclusionList (Spec imageRepo) = []" "tags = [''v1.0.0'', ''v1.0.0.sig'', ''latest'']"
      "regexp_Compile w CosignObjectRegex = Inr cosignMatch"
    using that
    by (simp add: default spec_filteredTags_def matchesPattern_def cosignMatch_tags)
  show ?thesis
    using default defaulted calls written count signature by blast
qed

lemma scan_options_example:
  "scan_options exampleWorld (exampleRepo lastScan interval) alpineReference = Inr [WithContext]"
  "scan_options exampleWorld
     ((exampleRepo lastScan interval)
        \<lparr>Spec := (exampleSpec interval)\<lparr>ExclusionList := [CosignObjectRegex, ''^v'']\<rparr>\<rparr>)
     alpineReference = Inr [WithContext]"
  by (simp_all add: scan_options_def scan_auth_def scan_cert_def scan_serviceAccount_def
      exampleRepo_def exampleSpec_def exampleWorld_def)

theorem scan_exclusion_filter_witness:
  "Tags (snd (snd (scan exampleWorld exampleDb (exampleRepo None (60 * Second)) alpineReference)))
     ''index.docker.io/library/alpine'' = Inr [''v1.0.0'', ''latest'']
   \<and> Tags (snd (snd (scan exampleWorld exampleDb
          ((exampleRepo None (60 * Second))
             \<lparr>Spec := (exampleSpec (60 * Second))\<lparr>ExclusionList := [CosignObjectRegex, ''^v'']\<rparr>\<rparr>)
          alpineReference)))
     ''index.docker.io/library/alpine'' = Inr [''v1.0.0'', ''latest'', ''latest'']"
proof -
  let ?tags = "[''v1.0.0'', ''v1.0.0.sig'', ''latest'']"
  let ?two = "(exampleRepo None (60 * Second))
             \<lparr>Spec := (exampleSpec (60 * Second))\<lparr>ExclusionList := [CosignObjectRegex, ''^v'']\<rparr>\<rparr>"
  have listed: "remote_List exampleWorld (ContextString alpineReference) [WithContext] = Inr ?tags"
    by (simp add: exampleWorld_def)
  have e1: "effectiveExclusionList (exampleRepo None (60 * Second)) = [CosignObjectRegex]"
    and e2: "effectiveExclusionList ?two = [CosignObjectRegex, ''^v'']"
    by (simp_all add: effectiveExclusionList_def exampleRepo_def exampleSpec_def)
  have c: "regexp_Compile exampleWorld CosignObjectRegex = Inr cosignMatch"
    "regexp_Compile exampleWorld ''^v'' = Inr (\<lambda>tag. prefix ''v'' tag)"
    by (simp_all add: exampleWorld_def exampleCompile_def CosignObjectRegex_def)
  have c1: "\<forall>regex\<in>set (effectiveExclusionList (exampleRepo None (60 * Second))).
              \<exists>r. regexp_Compile exampleWorld regex = Inr r"
    and c2: "\<forall>regex\<in>set (effectiveExclusionList ?two).
              \<exists>r. regexp_Compile exampleWorld regex = Inr r"
    by (simp_all add: e1 e2 c)
  have two: "spec_filteredTags exampleWorld [CosignObjectRegex, ''^v''] ?tags
      = [''v1.0.0'', ''latest'', ''latest'']"
    by (simp add: spec_filteredTags_def matchesPattern_def c cosignMatch_tags)
  have d: "db_writeError exampleDb ''index.docker.io/library/alpine'' = None"
    "db_readError exampleDb ''index.docker.io/library/alpine'' = None"
    "ContextString alpineReference = ''index.docker.io/library/alpine''"
    "ExclusionList (Spec (exampleRepo None (60 * Second))) = []"
    by (simp_all add: exampleDb_def alpineReference_def exampleRepo_def exampleSpec_def)
  note f1 = scan_exclusion_filter [OF scan_options_example(1) listed c1, of exampleDb "[]"]
  note f2 = scan_exclusion_filter [OF scan_options_example(2) listed c2, of exampleDb "[]"]
  show ?thesis
    using f1 [THEN conjunct2, THEN conjunct2, THEN conjunct1]
      f1 [THEN conjunct2, THEN conjunct2, THEN conjunct2, THEN conjunct2]
      f2 [THEN conjunct2, THEN conjunct2, THEN conjunct1]
    by (simp add: d c e2 two)
qed

lemma FindStatusCondition_Set:
  "FindStatusCondition (SetStatusCondition conditions c) (cond_Type c) = Some c"
  by (induction conditions) (simp_all add: FindStatusCondition_def)

lemma notReadyWith_MarkCondition:
  "notReadyWith (MarkCondition ir ReadyCondition ConditionFalse reason message) message"
  using FindStatusCondition_Set
    [of "Conditions (Status ir)"
        "\<lparr>cond_Type = ReadyCondition, cond_Status = ConditionFalse, cond_Reason = reason,
          cond_Message = message\<rparr>"]
  by (simp add: notReadyWith_def MarkCondition_def)

text \<open>
  C7. When the scan reaches the registry and the listing returns an error, the scan
  returns that error and leaves the resource not ready with the error text; the store is
  as it was, the log of \<open>SetTags\<close> calls and the stored tags included, and the last scan
  result of the status, count and time, is unchanged. So it is in the first variant, and
  in the second.
\<close>

theorem scan_listing_failure:
  "(scan_options w imageRepo ref = Inr options
      \<and> remote_List w (ContextString ref) options = Inl err \<longrightarrow>
    fst (scan w db imageRepo ref) = Some err
    \<and> notReadyWith (fst (snd (scan w db imageRepo ref))) (Error_msg err)
    \<and> snd (snd (scan w db imageRepo ref)) = db
    \<and> db_setCalls (snd (snd (scan w db imageRepo ref))) = db_setCalls db
    \<and> Tags (snd (snd (scan w db imageRepo ref))) name = Tags db name
    \<and> LastScanResult (Status (fst (snd (scan w db imageRepo ref))))
       = LastScanResult (Status imageRepo))
   \<and> (scan2_options w imageRepo ref = Inr options2
      \<and> remote_List w (ContextString ref) options2 = Inl err2 \<longrightarrow>
    fst (scan2 w db imageRepo ref) = Some err2
    \<and> notReadyWith (fst (snd (scan2 w db imageRepo ref))) (Error_msg err2)
    \<and> snd (snd (scan2 w db imageRepo ref)) = db
    \<and> db_setCalls (snd (snd (scan2 w db imageRepo ref))) = db_setCalls db
    \<and> Tags (snd (snd (scan2 w db imageRepo ref))) name = Tags db name
    \<and> LastScanResult (Status (fst (snd (scan2 w db imageRepo ref))))
       = LastScanResult (Status imageRepo))"
proof -
  have first: "scan w db imageRepo ref
      = (Some err,
         SetImageRepositoryReadiness imageRepo ConditionFalse ReconciliationFailedReason
           (Error_msg err),
         db)"
    if "scan_options w imageRepo ref = Inr options"
      "remote_List w (ContextString ref) options = Inl err"
    using that by (simp add: scan_def)
  have second: "scan2 w db imageRepo ref
      = (Some err2, MarkFalse imageRepo ReadyCondition FailedReason (Error_msg err2), db)"
    if "scan2_options w imageRepo ref = Inr options2"
      "remote_List w (ContextString ref) options2 = Inl err2"
    using that by (simp add: scan2_def)
  have unchanged: "LastScanResult (Status (MarkCondition imageRepo t status reason message))
      = LastScanResult (Status imageRepo)" for t status reason message
    by (simp add: MarkCondition_def)
  show ?thesis
    using first second
    by (auto simp: notReadyWith_MarkCondition unchanged
        SetImageRepositoryReadiness_def MarkFalse_def)
qed

theorem scan_listing_failure_witness:
  "fst (scan registryDownWorld exampleDb
          (exampleRepo (Some \<lparr>TagCount = 1, ScanTime = 5000000000\<rparr>) (60 * Second))
          alpineReference) = Some (Error ''connection refused'')
   \<and> notReadyWith
        (fst (snd (scan registryDownWorld exampleDb
          (exampleRepo (Some \<lparr>TagCount = 1, ScanTime = 5000000000\<rparr>) (60 * Second))
          alpineReference))) ''connection refused''
   \<and> snd (snd (scan registryDownWorld exampleDb
          (exampleRepo (Some \<lparr>TagCount = 1, ScanTime = 5000000000\<rparr>) (60 * Second))
          alpineReference)) = exampleDb
   \<and> LastScanResult (Status (fst (snd (scan registryDownWorld exampleDb
          (exampleRepo (Some \<lparr>TagCount = 1, ScanTime = 5000000000\<rparr>) (60 * Second))
          alpineReference)))) = Some \<lparr>TagCount = 1, ScanTime = 5000000000\<rparr>
   \<and> fst (scan2 registryDownWorld exampleDb
          (exampleRepo (Some \<lparr>TagCount = 1, ScanTime = 5000000000\<rparr>) (60 * Second))
          alpineReference) = Some (Error ''connection refused'')
   \<and> snd (snd (scan2 registryDownWorld exampleDb
          (exampleRepo (Some \<lparr>TagCount = 1, ScanTime = 5000000000\<rparr>) (60 * Second))
          alpineReference)) = exampleDb"
proof -
  let ?repo = "exampleRepo (Some \<lparr>TagCount = 1, ScanTime = 5000000000\<rparr>) (60 * Second)"
  have o: "scan_options registryDownWorld ?repo alpineReference = Inr [WithContext]"
    by (simp add: scan_options_def scan_auth_def scan_cert_def scan_serviceAccount_def
      exampleRepo_def exampleSpec_def exampleWorld_def registryDownWorld_def)
  have o2: "scan2_options registryDownWorld ?repo alpineReference = Inr []"
    by (simp add: scan2_options_def scan2_auth_def scan2_cert_def
      exampleRepo_def exampleSpec_def)
  have l: "remote_List registryDownWorld (ContextString alpineReference) options
      = Inl (Error ''connection refused'')" for options
    by (simp add: registryDownWorld_def)
  have r: "LastScanResult (Status ?repo) = Some \<lparr>TagCount = 1, ScanTime = 5000000000\<rparr>"
    by (simp add: exampleRepo_def)
  note f = scan_listing_failure [of registryDownWorld ?repo alpineReference "[WithContext]"
      "Error ''connection refused''" exampleDb "[]" "[]" "Error ''connection refused''"]
  show ?thesis
    using f [THEN conjunct1] f [THEN conjunct2] o o2 l r by simp
qed

subsection \<open>The manual trigger\<close>

lemma scan_success_handled:
  assumes "fst (scan w db imageRepo ref) = None"
    and "ReconcileAnnotationValue (Annotations imageRepo) = Some token"
  shows "LastHandledReconcileRequest (Status (fst (snd (scan w db imageRepo ref)))) = token"
  using assms
  by (auto simp: scan_def Let_def SetImageRepositoryReadiness_def MarkCondition_def
      split: sum.splits prod.splits option.splits if_splits)

lemma patchStatus_accepted:
  assumes "\<forall>n. api_error w n = None" and "stored cl = Some res"
  shows "fst (patchStatus w cl newStatus) = None"
    and "stored (snd (patchStatus w cl newStatus)) = Some (res\<lparr>Status := newStatus\<rparr>)"
  using assms by (simp_all add: patchStatus_def Get_def api_request_def)

lemma event_stored: "stored (event cl severity msg) = stored cl"
  by (simp add: event_def Let_def)

lemma Reconcile_scan_handled:
  assumes "ReconcileAnnotationValue (Annotations imageRepo) = Some token"
    and "scanned (Reconcile_scan w cl db t imageRepo ref) = Some None"
  shows "handledInMemory (Reconcile_scan w cl db t imageRepo ref) token"
    and "(\<forall>n. api_error w n = None) \<Longrightarrow> stored cl = Some res \<Longrightarrow>
           handledInCluster (Reconcile_scan w cl db t imageRepo ref) token"
proof -
  obtain reconcileErr imageRepo' db' where s: "scan w db imageRepo ref = (reconcileErr, imageRepo', db')"
    by (cases "scan w db imageRepo ref") auto
  have ok: "reconcileErr = None"
    using assms(2) s
    by (auto simp: Reconcile_scan_def outcome_def split: prod.splits option.splits if_splits)
  have h: "LastHandledReconcileRequest (Status imageRepo') = token"
    using scan_success_handled [of w db imageRepo ref token] assms(1) s ok by simp
  show "handledInMemory (Reconcile_scan w cl db t imageRepo ref) token"
    using assms(2) s h
    by (auto simp: Reconcile_scan_def outcome_def handledInMemory_def
        split: prod.splits option.splits if_splits)
  show "handledInCluster (Reconcile_scan w cl db t imageRepo ref) token"
    if api: "\<forall>n. api_error w n = None" and st: "stored cl = Some res"
    using assms(2) s h patchStatus_accepted [OF api st, of "Status imageRepo'"]
    by (auto simp: Reconcile_scan_def outcome_def handledInCluster_def event_stored
        split: prod.splits option.splits if_splits)
qed

lemma Reconcile_active_handled:
  assumes "ReconcileAnnotationValue (Annotations imageRepo) = Some token"
    and "scanned (Reconcile_active w cl db t imageRepo) = Some None"
  shows "handledInMemory (Reconcile_active w cl db t imageRepo) token"
    and "(\<forall>n. api_error w n = None) \<Longrightarrow> stored cl = Some res \<Longrightarrow>
           handledInCluster (Reconcile_active w cl db t imageRepo) token"
proof -
  obtain ref where ref: "parseImageReference (name_ParseReference w) (Spec_Image (Spec imageRepo)) = Inr ref"
    and metrics: "(if MetricsRecorder_set w then reference_GetReference w else None) = None"
    using assms(2)
    by (auto simp: Reconcile_active_def outcome_def Let_def
        split: sum.splits option.splits prod.splits if_splits)
  let ?named = "imageRepo\<lparr>Status := (Status imageRepo)\<lparr>CanonicalImageName := ContextString ref\<rparr>\<rparr>"
  have ann: "ReconcileAnnotationValue (Annotations ?named) = Some token"
    using assms(1) by simp
  show "handledInMemory (Reconcile_active w cl db t imageRepo) token"
  proof (cases "CanonicalImageName (Status imageRepo) = ContextString ref")
    case True
    then have "Reconcile_active w cl db t imageRepo = Reconcile_scan w cl db t imageRepo ref"
      using ref metrics by (simp add: Reconcile_active_def)
    then show ?thesis
      using Reconcile_scan_handled(1) [OF assms(1)] assms(2) by simp
  next
    case False
    obtain perr cl' where p: "patchStatus w cl (Status ?named) = (perr, cl')"
      by (cases "patchStatus w cl (Status ?named)") auto
    have "perr = None"
      using assms(2) ref metrics False p
      by (auto simp: Reconcile_active_def outcome_def Let_def split: option.splits)
    then have "Reconcile_active w cl db t imageRepo = Reconcile_scan w cl' db t ?named ref"
      using ref metrics False p by (simp add: Reconcile_active_def Let_def)
    then show ?thesis
      using Reconcile_scan_handled(1) [OF ann] assms(2) by simp
  qed
  show "handledInCluster (Reconcile_active w cl db t imageRepo) token"
    if api: "\<forall>n. api_error w n = None" and st: "stored cl = Some res"
  proof (cases "CanonicalImageName (Status imageRepo) = ContextString ref")
    case True
    then have "Reconcile_active w cl db t imageRepo = Reconcile_scan w cl db t imageRepo ref"
      using ref metrics by (simp add: Reconcile_active_def)
    then show ?thesis
      using Reconcile_scan_handled(2) [OF assms(1) _ api st] assms(2) by simp
  next
    case False
    obtain perr cl' where p: "patchStatus w cl (Status ?named) = (perr, cl')"
      by (cases "patchStatus w cl (Status ?named)") auto
    have perr: "perr = None" and st': "stored cl' = Some (res\<lparr>Status := Status ?named\<rparr>)"
      using patchStatus_accepted [OF api st, of "Status ?named"] p by simp_all
    then have "Reconcile_active w cl db t imageRepo = Reconcile_scan w cl' db t ?named ref"
      using ref metrics False p by (simp add: Reconcile_active_def Let_def)
    then show ?thesis
      using Reconcile_scan_handled(2) [OF ann _ api st'] assms(2) by simp
  qed
qed

lemma Patch_accepted:
  assumes "\<forall>n. api_error w n = None"
  shows "fst (Patch w cl obj) = None" and "stored (snd (Patch w cl obj)) = Some obj"
  using assms by (simp_all add: Patch_def api_request_def)

lemma Get_stored:
  "Get w cl = (Inr imageRepo, cl') \<Longrightarrow> stored cl = Some imageRepo \<and> stored cl' = Some imageRepo"
  by (auto simp: Get_def api_request_def split: option.splits)

lemma Reconcile_handled:
  assumes "stored cl = Some obj"
    and "ReconcileAnnotationValue (Annotations obj) = Some token"
    and "scanned (Reconcile w cl db t) = Some None"
  shows "handledInMemory (Reconcile w cl db t) token"
    and "(\<forall>n. api_error w n = None) \<Longrightarrow> handledInCluster (Reconcile w cl db t) token"
proof -
  obtain got cl1 where g: "Get w cl = (got, cl1)"
    by (cases "Get w cl") auto
  have got: "got = Inr obj"
    using assms(1,3) g Get_stored [of w cl _ cl1]
    by (cases got) (auto simp: Reconcile_def outcome_def)
  have st1: "stored cl1 = Some obj"
    using g got Get_stored by blast
  let ?fin = "AddFinalizer obj ImageRepositoryFinalizer"
  have annf: "ReconcileAnnotationValue (Annotations ?fin) = Some token"
    using assms(2) by (simp add: AddFinalizer_def)
  show "handledInMemory (Reconcile w cl db t) token"
  proof (cases "ImageRepositoryFinalizer \<in> set (Finalizers obj)")
    case True
    then have "Reconcile w cl db t = Reconcile_active w cl1 db t obj"
      using assms(3) g got
      by (auto simp: Reconcile_def outcome_def Let_def split: prod.splits option.splits if_splits)
    then show ?thesis
      using Reconcile_active_handled(1) [OF assms(2)] assms(3) by simp
  next
    case False
    obtain perr cl2 where p: "Patch w cl1 ?fin = (perr, cl2)"
      by (cases "Patch w cl1 ?fin") auto
    have "Reconcile w cl db t = Reconcile_active w cl2 db t ?fin"
      using assms(3) g got False p
      by (auto simp: Reconcile_def outcome_def Let_def AddFinalizer_def
          split: prod.splits option.splits if_splits)
    then show ?thesis
      using Reconcile_active_handled(1) [OF annf] assms(3) by simp
  qed
  show "handledInCluster (Reconcile w cl db t) token" if api: "\<forall>n. api_error w n = None"
  proof (cases "ImageRepositoryFinalizer \<in> set (Finalizers obj)")
    case True
    then have "Reconcile w cl db t = Reconcile_active w cl1 db t obj"
      using assms(3) g got
      by (auto simp: Reconcile_def outcome_def Let_def split: prod.splits option.splits if_splits)
    then show ?thesis
      using Reconcile_active_handled(2) [OF assms(2) _ api st1] assms(3) by simp
  next
    case False
    obtain perr cl2 where p: "Patch w cl1 ?fin = (perr, cl2)"
      by (cases "Patch w cl1 ?fin") auto
    have st2: "stored cl2 = Some ?fin"
      using Patch_accepted(2) [OF api, of cl1 ?fin] p by simp
    have "Reconcile w cl db t = Reconcile_active w cl2 db t ?fin"
      using assms(3) g got False p
      by (auto simp: Reconcile_def outcome_def Let_def AddFinalizer_def
          split: prod.splits option.splits if_splits)
    then show ?thesis
      using Reconcile_active_handled(2) [OF annf _ api st2] assms(3) by simp
  qed
qed

lemma MarkCondition_Annotations:
  "Annotations (MarkCondition ir t status reason message) = Annotations ir"
  by (simp add: MarkCondition_def)

lemma scan2_Annotations:
  "Annotations (fst (snd (scan2 w db imageRepo ref))) = Annotations imageRepo"
  by (auto simp: scan2_def scan2_options_def scan2_auth_def scan2_cert_def Let_def
      MarkFalse_def MarkTrue_def MarkCondition_Annotations
      split: sum.splits prod.splits option.splits if_splits)

lemma Reconcile2_body_Annotations:
  "Annotations (fst (snd (Reconcile2_body w cl db t imageRepo))) = Annotations imageRepo"
proof (cases "name_ParseReference w (Spec_Image (Spec imageRepo))")
  case (Inl err)
  then show ?thesis
    by (simp add: Reconcile2_body_def MarkFalse_def MarkCondition_Annotations)
next
  case (Inr ref)
  let ?named = "if CanonicalImageName (Status imageRepo) \<noteq> ContextString ref
      then imageRepo\<lparr>Status := (Status imageRepo)\<lparr>CanonicalImageName := ContextString ref\<rparr>\<rparr>
      else imageRepo"
  have "Annotations (fst (snd (scan2 w db ?named ref))) = Annotations imageRepo"
    by (simp add: scan2_Annotations)
  then show ?thesis
    using Inr
    by (auto simp: Reconcile2_body_def Let_def split: prod.splits option.splits)
qed

lemma Reconcile2_deferred_handled:
  assumes "ReconcileAnnotationValue (Annotations (fst (snd returned))) = Some token"
  shows "handledInMemory (Reconcile2_deferred w returned) token"
    and "(\<forall>n. api_error w n = None) \<Longrightarrow> handledInCluster (Reconcile2_deferred w returned) token"
  using assms
  by (auto simp: Reconcile2_deferred_def patcher_Patch_def api_request_def outcome_def
      handledInMemory_def handledInCluster_def Let_def split: prod.splits option.splits)

lemma Reconcile2_handled:
  assumes "stored cl = Some obj"
    and "ReconcileAnnotationValue (Annotations obj) = Some token"
    and "scanned (Reconcile2 w cl db t) \<noteq> None"
  shows "handledInMemory (Reconcile2 w cl db t) token"
    and "(\<forall>n. api_error w n = None) \<Longrightarrow> handledInCluster (Reconcile2 w cl db t) token"
proof -
  obtain got cl1 where g: "Get w cl = (got, cl1)"
    by (cases "Get w cl") auto
  have got: "got = Inr obj"
    using assms(1,3) g Get_stored [of w cl _ cl1]
    by (cases got) (auto simp: Reconcile2_def outcome_def)
  have r: "Reconcile2 w cl db t = Reconcile2_deferred w (Reconcile2_body w cl1 db t obj)"
    using assms(3) g got
    by (auto simp: Reconcile2_def outcome_def split: option.splits if_splits)
  have ann: "ReconcileAnnotationValue (Annotations (fst (snd (Reconcile2_body w cl1 db t obj))))
      = Some token"
    using assms(2) by (simp add: Reconcile2_body_Annotations)
  show "handledInMemory (Reconcile2 w cl db t) token"
    unfolding r using ann by (rule Reconcile2_deferred_handled(1))
  show "handledInCluster (Reconcile2 w cl db t) token" if "\<forall>n. api_error w n = None"
    unfolding r using ann that by (rule Reconcile2_deferred_handled(2))
qed

lemma parse_alpine:
  "parseImageReference exampleParseReference ''docker.io/library/alpine'' = Inr alpineReference"
  by (simp add: parseImageReference_def Split_def exampleParseReference_def HasPrefix_def
      TrimPrefix_def alpineReference_def)

lemma triggeredRepo_fields:
  "Finalizers triggeredRepo = [ImageRepositoryFinalizer]"
  "DeletionTimestamp triggeredRepo = None"
  "Suspend (Spec triggeredRepo) = False"
  "Spec_Image (Spec triggeredRepo) = ''docker.io/library/alpine''"
  "CanonicalImageName (Status triggeredRepo) = ContextString alpineReference"
  "ReconcileAnnotationValue (Annotations triggeredRepo) = Some ''t1''"
  "LastHandledReconcileRequest (Status triggeredRepo) = []"
  by (simp_all add: triggeredRepo_def exampleRepo_def exampleSpec_def alpineReference_def
      ReconcileAnnotationValue_def)

lemma world_fields:
  "MetricsRecorder_set exampleWorld = False"
  "MetricsRecorder_set registryDownWorld = False"
  "name_ParseReference exampleWorld = exampleParseReference"
  "name_ParseReference registryDownWorld = exampleParseReference"
  "api_error exampleWorld = (\<lambda>n. None)"
  "api_error registryDownWorld = (\<lambda>n. None)"
  "patch_NewHelper exampleWorld = None"
  "patch_NewHelper registryDownWorld = None"
  by (simp_all add: exampleWorld_def registryDownWorld_def)

lemma triggered_due:
  "shouldScan db triggeredRepo t = (True, 60 * Second, None)"
  "shouldScan2 db triggeredRepo t = (True, 60 * Second, None)"
  by (simp_all add: shouldScan_def shouldScan2_def triggeredRepo_def exampleRepo_def
      exampleSpec_def ReconcileAnnotationValue_def)

lemma Get_example:
  "api_error w = (\<lambda>n. None) \<Longrightarrow>
     Get w (clusterWith obj) = (Inr obj, \<lparr>stored = Some obj, events = [], api_calls = 1\<rparr>)"
  by (simp add: Get_def api_request_def clusterWith_def)

lemma scan_down:
  "scan registryDownWorld db triggeredRepo alpineReference
     = (Some (Error ''connection refused''),
        SetImageRepositoryReadiness triggeredRepo ConditionFalse ReconciliationFailedReason
          ''connection refused'', db)"
  by (simp add: scan_def scan_options_def scan_auth_def scan_cert_def scan_serviceAccount_def
      triggeredRepo_def exampleRepo_def exampleSpec_def exampleWorld_def registryDownWorld_def)

lemma Reconcile_down:
  "Reconcile registryDownWorld (clusterWith triggeredRepo) exampleDb 5000000000
    = outcome True 0 (Some (Error ''connection refused''))
        (Some (SetImageRepositoryReadiness triggeredRepo ConditionFalse ReconciliationFailedReason
          ''connection refused''))
        \<lparr>stored = Some (triggeredRepo\<lparr>Status := Status (SetImageRepositoryReadiness triggeredRepo ConditionFalse ReconciliationFailedReason
          ''connection refused'')\<rparr>),
         events = [(''Warning'', ''error'', ''connection refused'')], api_calls = 3\<rparr>
        exampleDb (Some (Some (Error ''connection refused'')))"
proof -
  have a: "Reconcile registryDownWorld (clusterWith triggeredRepo) exampleDb 5000000000
      = Reconcile_active registryDownWorld \<lparr>stored = Some triggeredRepo, events = [], api_calls = 1\<rparr>
          exampleDb 5000000000 triggeredRepo"
    by (simp add: Reconcile_def Get_example world_fields triggeredRepo_fields)
  have b: "Reconcile_active registryDownWorld \<lparr>stored = Some triggeredRepo, events = [], api_calls = 1\<rparr>
          exampleDb 5000000000 triggeredRepo
      = Reconcile_scan registryDownWorld \<lparr>stored = Some triggeredRepo, events = [], api_calls = 1\<rparr>
          exampleDb 5000000000 triggeredRepo alpineReference"
    by (simp add: Reconcile_active_def parse_alpine world_fields triggeredRepo_fields)
  show ?thesis
    unfolding a b
    by (simp add: Reconcile_scan_def triggered_due scan_down patchStatus_def Get_def
        api_request_def world_fields event_def EventSeverityError_def numeral_3_eq_3)
qed

lemma scan_up:
  "fst (scan exampleWorld exampleDb triggeredRepo alpineReference) = None"
  by (simp add: scan_def scan_options_def scan_auth_def scan_cert_def scan_serviceAccount_def
      triggeredRepo_def exampleRepo_def exampleSpec_def exampleWorld_def exampleCompile_def
      SetTags_def exampleDb_def Let_def cosignMatch_tags)

lemma scan2_up:
  "fst (scan2 exampleWorld exampleDb triggeredRepo alpineReference) = None"
  by (simp add: scan2_def scan2_options_def scan2_auth_def scan2_cert_def
      triggeredRepo_def exampleRepo_def exampleSpec_def exampleWorld_def
      SetTags_def exampleDb_def Let_def)

lemma scan2_down:
  "fst (scan2 registryDownWorld exampleDb triggeredRepo alpineReference)
     = Some (Error ''connection refused'')"
  by (simp add: scan2_def scan2_options_def scan2_auth_def scan2_cert_def
      triggeredRepo_def exampleRepo_def exampleSpec_def exampleWorld_def registryDownWorld_def)

lemma Reconcile_scan_scanned:
  "shouldScan db imageRepo t = (True, when, None) \<Longrightarrow>
     scanned (Reconcile_scan w cl db t imageRepo ref) = Some (fst (scan w db imageRepo ref))"
  by (auto simp: Reconcile_scan_def outcome_def split: prod.splits option.splits)

lemma Reconcile2_scanned:
  assumes "api_error w = (\<lambda>n. None)" and "patch_NewHelper w = None"
    and "Suspend (Spec obj) = False"
    and "name_ParseReference w (Spec_Image (Spec obj)) = Inr ref"
    and "CanonicalImageName (Status obj) = ContextString ref"
    and "shouldScan2 db obj t = (True, when, None)"
  shows "scanned (Reconcile2 w (clusterWith obj) db t) = Some (fst (scan2 w db obj ref))"
  using assms
  by (auto simp: Reconcile2_def Get_example Reconcile2_deferred_def Reconcile2_body_def
      outcome_def Let_def split: prod.splits option.splits)

lemma Reconcile_up:
  "scanned (Reconcile exampleWorld (clusterWith triggeredRepo) exampleDb 5000000000) = Some None"
proof -
  have a: "Reconcile exampleWorld (clusterWith triggeredRepo) exampleDb 5000000000
      = Reconcile_active exampleWorld \<lparr>stored = Some triggeredRepo, events = [], api_calls = 1\<rparr>
          exampleDb 5000000000 triggeredRepo"
    by (simp add: Reconcile_def Get_example world_fields triggeredRepo_fields)
  have b: "Reconcile_active exampleWorld \<lparr>stored = Some triggeredRepo, events = [], api_calls = 1\<rparr>
          exampleDb 5000000000 triggeredRepo
      = Reconcile_scan exampleWorld \<lparr>stored = Some triggeredRepo, events = [], api_calls = 1\<rparr>
          exampleDb 5000000000 triggeredRepo alpineReference"
    by (simp add: Reconcile_active_def parse_alpine world_fields triggeredRepo_fields)
  show ?thesis
    unfolding a b by (simp add: Reconcile_scan_scanned [OF triggered_due(1)] scan_up)
qed

lemma exampleParse_alpine:
  "exampleParseReference ''docker.io/library/alpine'' = Inr alpineReference"
  by (simp add: exampleParseReference_def HasPrefix_def)

lemma Reconcile2_up:
  "scanned (Reconcile2 exampleWorld (clusterWith triggeredRepo) exampleDb 5000000000) = Some None"
  using Reconcile2_scanned [of exampleWorld triggeredRepo alpineReference exampleDb 5000000000]
  by (simp add: world_fields triggeredRepo_fields exampleParse_alpine triggered_due scan2_up)

lemma Reconcile2_down:
  "scanned (Reconcile2 registryDownWorld (clusterWith triggeredRepo) exampleDb 5000000000)
     = Some (Some (Error ''connection refused''))"
  using Reconcile2_scanned [of registryDownWorld triggeredRepo alpineReference exampleDb 5000000000]
  by (simp add: world_fields triggeredRepo_fields exampleParse_alpine triggered_due scan2_down)

text \<open>
  C9, as amended. Let the stored resource carry a manual-trigger token. In the second
  variant every pass that attempts a scan, whether the scan succeeds or fails, records
  the token into \<open>status.lastHandledReconcileRequest\<close> of the resource it holds, and the
  stored resource has it whenever the API server refuses no request. In the first
  variant every pass whose scan succeeds does the same.
\<close>

theorem reconcile_request_handled:
  assumes "stored cl = Some obj"
    and "ReconcileAnnotationValue (Annotations obj) = Some token"
  shows "(scanned (Reconcile2 w cl db now) \<noteq> None \<longrightarrow>
            handledInMemory (Reconcile2 w cl db now) token
            \<and> ((\<forall>n. api_error w n = None) \<longrightarrow>
                 handledInCluster (Reconcile2 w cl db now) token))
       \<and> (scanned (Reconcile w cl db now) = Some None \<longrightarrow>
            handledInMemory (Reconcile w cl db now) token
            \<and> ((\<forall>n. api_error w n = None) \<longrightarrow>
                 handledInCluster (Reconcile w cl db now) token))"
  using Reconcile2_handled [OF assms] Reconcile_handled [OF assms] by blast

theorem reconcile_request_handled_witness:
  "scanned (Reconcile2 exampleWorld (clusterWith triggeredRepo) exampleDb 5000000000) = Some None
   \<and> handledInMemory (Reconcile2 exampleWorld (clusterWith triggeredRepo) exampleDb 5000000000) ''t1''
   \<and> handledInCluster (Reconcile2 exampleWorld (clusterWith triggeredRepo) exampleDb 5000000000) ''t1''
   \<and> scanned (Reconcile2 registryDownWorld (clusterWith triggeredRepo) exampleDb 5000000000)
       = Some (Some (Error ''connection refused''))
   \<and> handledInMemory
        (Reconcile2 registryDownWorld (clusterWith triggeredRepo) exampleDb 5000000000) ''t1''
   \<and> handledInCluster
        (Reconcile2 registryDownWorld (clusterWith triggeredRepo) exampleDb 5000000000) ''t1''
   \<and> scanned (Reconcile exampleWorld (clusterWith triggeredRepo) exampleDb 5000000000) = Some None
   \<and> handledInMemory (Reconcile exampleWorld (clusterWith triggeredRepo) exampleDb 5000000000) ''t1''
   \<and> handledInCluster (Reconcile exampleWorld (clusterWith triggeredRepo) exampleDb 5000000000) ''t1''"
proof -
  have st: "stored (clusterWith triggeredRepo) = Some triggeredRepo"
    by (simp add: clusterWith_def)
  note h = reconcile_request_handled [OF st triggeredRepo_fields(6)]
  show ?thesis
    using h [of exampleWorld exampleDb 5000000000] h [of registryDownWorld exampleDb 5000000000]
      Reconcile_up Reconcile2_up Reconcile2_down
    by (simp add: world_fields)
qed

text \<open>
  The claim as first stated covers failed scans in both variants. In the first variant
  the token is recorded at the end of \<open>scan\<close>, which a failed scan does not reach: with
  the registry down, the pass scans because of the trigger \<open>t1\<close>, the scan fails, and
  neither the resource held nor the stored one has \<open>t1\<close> as the last handled request.
\<close>

theorem reconcile_request_handled_counterexample:
  "stored (clusterWith triggeredRepo) = Some triggeredRepo
   \<and> ReconcileAnnotationValue (Annotations triggeredRepo) = Some ''t1''
   \<and> scanned (Reconcile registryDownWorld (clusterWith triggeredRepo) exampleDb 5000000000)
       = Some (Some (Error ''connection refused''))
   \<and> \<not> handledInMemory
          (Reconcile registryDownWorld (clusterWith triggeredRepo) exampleDb 5000000000) ''t1''
   \<and> \<not> handledInCluster
          (Reconcile registryDownWorld (clusterWith triggeredRepo) exampleDb 5000000000) ''t1''"
proof -
  have "stored (clusterWith triggeredRepo) = Some triggeredRepo"
    by (simp add: clusterWith_def)
  then show ?thesis
    by (simp add: Reconcile_down outcome_def handledInMemory_def handledInCluster_def
        triggeredRepo_fields SetImageRepositoryReadiness_def MarkCondition_def)
qed

end
